theory Spec2Isabelle
  imports Main "HOL-Library.Sublist"
begin

section \<open>JavaScript values\<close>

text \<open>
  The handlers of \<^verbatim>\<open>supabase/functions/send-chat-message/index.ts\<close> work on untyped
  JavaScript values: the decoded request body, the decoded webhook reply, rows of the
  storage service. A value is \<open>undefined\<close>, \<open>null\<close>, a boolean, a number, a string, an
  array or an object (an association list, read from the left). Numbers only matter here
  through being zero or not, so they are integers.
\<close>

datatype jsval =
    JUndefined
  | JNull
  | JBool bool
  | JNum int
  | JStr string
  | JArr "jsval list"
  | JObj "(string \<times> jsval) list"

text \<open>A thrown fault is an \<open>Error\<close> object; the handlers only read its \<open>message\<close>.\<close>

datatype js_error = JsError (message: string)

text \<open>The error object of a storage reply (\<open>notebookError\<close>, \<open>sourcesError\<close>, ...).\<close>

datatype pg_error = PostgrestError (pg_message: string)

text \<open>JavaScript truthiness, as \<open>!x\<close>, \<open>x || y\<close> and \<open>x && y\<close> test it.\<close>

fun truthy :: "jsval \<Rightarrow> bool" where
  "truthy JUndefined = False"
| "truthy JNull = False"
| "truthy (JBool b) = b"
| "truthy (JNum n) = (n \<noteq> 0)"
| "truthy (JStr s) = (s \<noteq> [])"
| "truthy (JArr xs) = True"
| "truthy (JObj fs) = True"

text \<open>
  Property read \<open>v.k\<close> for the property names this program reads (none of them is a
  built-in of strings, numbers or arrays): a \<open>TypeError\<close> on \<open>undefined\<close> and \<open>null\<close>,
  the bound value on an object, \<open>undefined\<close> otherwise.
\<close>

fun get_prop :: "jsval \<Rightarrow> string \<Rightarrow> js_error + jsval" where
  "get_prop JUndefined k =
     Inl (JsError (''Cannot read properties of undefined (reading '' @ k @ '')''))"
| "get_prop JNull k =
     Inl (JsError (''Cannot read properties of null (reading '' @ k @ '')''))"
| "get_prop (JObj fs) k = Inr (case map_of fs k of None \<Rightarrow> JUndefined | Some v \<Rightarrow> v)"
| "get_prop v k = Inr JUndefined"

text \<open>Optional chaining \<open>v?.k\<close>: \<open>undefined\<close> where \<open>v.k\<close> would throw.\<close>

definition opt_prop :: "jsval \<Rightarrow> string \<Rightarrow> jsval" where
  "opt_prop v k = (case get_prop v k of Inl e \<Rightarrow> JUndefined | Inr x \<Rightarrow> x)"

text \<open>\<open>String.prototype.includes\<close>: the argument occurs as a contiguous piece.\<close>

fun str_includes :: "string \<Rightarrow> string \<Rightarrow> bool" where
  "str_includes [] sub = (sub = [])"
| "str_includes (c # cs) sub = (take (length sub) (c # cs) = sub \<or> str_includes cs sub)"

text \<open>A status code inside a template literal: its decimal digits.\<close>

definition digit_char :: "nat \<Rightarrow> char" where
  "digit_char d = ''0123456789'' ! d"

function string_of_nat :: "nat \<Rightarrow> string" where
  "string_of_nat n =
     (if n < 10 then [digit_char n] else string_of_nat (n div 10) @ [digit_char (n mod 10)])"
  by pat_completeness auto
termination
  by (relation "measure (\<lambda>n. n)") auto

declare string_of_nat.simps [simp del]

section \<open>Requests, responses, storage rows and the outside world\<close>

record request =
  req_method :: string
  req_json :: "js_error + jsval"
  req_clone_json :: "js_error + jsval"

text \<open>
  \<open>req_json\<close> is what \<open>await req.json()\<close> gives (a fault when the body is not JSON);
  \<open>req_clone_json\<close> is what \<open>await req.clone().json()\<close> gives inside the catch handler.
\<close>

datatype body = NoBody | TextBody string | JsonBody jsval

text \<open>
  \<open>JsonBody v\<close> is the text \<open>JSON.stringify(v)\<close>; a property of \<open>v\<close> whose value is
  \<open>undefined\<close> is left out of that text.
\<close>

record response =
  resp_status :: nat
  resp_headers :: "(string \<times> string) list"
  resp_body :: body

datatype content = Raw jsval | JsonText jsval

record history_row =
  session_id :: jsval
  msg_type :: string
  msg_content :: content
  additional_kwargs :: jsval
  response_metadata :: jsval

record source_row =
  src_id :: jsval
  src_title :: jsval
  processing_status :: jsval

record chat_row =
  row_id :: jsval
  row_message :: jsval

record 'a query_result =
  data :: 'a
  error :: "pg_error option"

record webhook_response =
  wr_status :: nat
  wr_text :: "js_error + string"

text \<open>
  Everything the handlers reach outside themselves: process configuration
  (\<open>Deno.env.get\<close>), the clock, the storage client, the webhook and the JSON parser. A
  call either throws (\<open>Inl\<close>) or returns; a storage call returns its \<open>{data, error}\<close>
  pair. \<open>clock w k\<close> is what \<open>new Date().toISOString()\<close> gives at the \<open>k\<close>-th place a
  handler reads the time, counted from 0. The reads carry the selected columns and the
  identifier they filter on; \<open>chat_histories_recent\<close> is the read of the five newest
  messages.
\<close>

record world =
  env_get :: "string \<Rightarrow> string option"
  clock :: "nat \<Rightarrow> string"
  createClient :: "string \<Rightarrow> string \<Rightarrow> js_error + unit"
  notebooks_single :: "string \<Rightarrow> jsval \<Rightarrow> js_error + jsval query_result"
  sources_select :: "string \<Rightarrow> jsval \<Rightarrow> js_error + source_row list option query_result"
  documents_select :: "jsval \<Rightarrow> js_error + jsval list option query_result"
  chat_histories_recent :: "jsval \<Rightarrow> js_error + chat_row list option query_result"
  chat_histories_insert :: "history_row \<Rightarrow> js_error + pg_error option"
  fetch :: "string \<Rightarrow> string \<Rightarrow> jsval \<Rightarrow> js_error + webhook_response"
  JSON_parse :: "string \<Rightarrow> jsval option"

text \<open>The calls a handler makes to storage and to the network, in order.\<close>

datatype event =
    SelectNotebook string jsval
  | SelectSources string jsval
  | SelectDocuments jsval
  | SelectChatHistory jsval
  | InsertChatHistory history_row
  | Fetch string string jsval

section \<open>Control flow: throw, return, continue\<close>

datatype 'a step = Throw js_error | Return response | Next 'a

type_synonym 'a proc = "'a step \<times> event list"

definition bind :: "'a proc \<Rightarrow> ('a \<Rightarrow> 'b proc) \<Rightarrow> 'b proc" where
  "bind m f =
     (case m of
        (Throw e, evs) \<Rightarrow> (Throw e, evs)
      | (Return r, evs) \<Rightarrow> (Return r, evs)
      | (Next a, evs) \<Rightarrow> (case f a of (s, evs') \<Rightarrow> (s, evs @ evs')))"

text \<open>A computation with no outside call, and an outside call that is logged.\<close>

definition eval :: "js_error + 'a \<Rightarrow> 'a proc" where
  "eval r = (case r of Inl e \<Rightarrow> (Throw e, []) | Inr a \<Rightarrow> (Next a, []))"

definition call :: "event \<Rightarrow> js_error + 'a \<Rightarrow> 'a proc" where
  "call ev r = (case r of Inl e \<Rightarrow> (Throw e, [ev]) | Inr a \<Rightarrow> (Next a, [ev]))"

text \<open>\<open>try { m } catch (e) { }\<close> with an empty handler: a fault is swallowed, a \<open>return\<close>
  inside the block still returns.\<close>

definition attempt :: "'a proc \<Rightarrow> unit proc" where
  "attempt m =
     (case m of
        (Throw e, evs) \<Rightarrow> (Next (), evs)
      | (Return r, evs) \<Rightarrow> (Return r, evs)
      | (Next a, evs) \<Rightarrow> (Next (), evs))"

text \<open>\<open>try { m } catch (error) { h error }\<close>.\<close>

definition try_catch :: "'a proc \<Rightarrow> (js_error \<Rightarrow> 'a proc) \<Rightarrow> 'a proc" where
  "try_catch m h =
     (case m of
        (Throw e, evs) \<Rightarrow> (case h e of (s, evs') \<Rightarrow> (s, evs @ evs'))
      | (Return r, evs) \<Rightarrow> (Return r, evs)
      | (Next a, evs) \<Rightarrow> (Next a, evs))"

text \<open>What the runtime sees of a handler: a response, or a fault it did not catch.\<close>

definition run :: "response proc \<Rightarrow> (js_error + response) \<times> event list" where
  "run m =
     (case m of
        (Throw e, evs) \<Rightarrow> (Inl e, evs)
      | (Return r, evs) \<Rightarrow> (Inr r, evs)
      | (Next r, evs) \<Rightarrow> (Inr r, evs))"

section \<open>The message relay\<close>

definition corsHeaders :: "(string \<times> string) list" where
  "corsHeaders =
     [(''Access-Control-Allow-Origin'', ''*''),
      (''Access-Control-Allow-Headers'', ''authorization, x-client-info, apikey, content-type'')]"

definition json_response :: "nat \<Rightarrow> jsval \<Rightarrow> response" where
  "json_response st v =
     \<lparr>resp_status = st,
      resp_headers = corsHeaders @ [(''Content-Type'', ''application/json'')],
      resp_body = JsonBody v\<rparr>"

text \<open>\<open>new Response(null, { headers: corsHeaders })\<close>: status 200 by default.\<close>

definition preflight :: response where
  "preflight = \<lparr>resp_status = 200, resp_headers = corsHeaders, resp_body = NoBody\<rparr>"

text \<open>\<open>Deno.env.get(k) ?? ''\<close>, \<open>!Deno.env.get(k)\<close> and the storage client.\<close>

definition env_or_empty :: "world \<Rightarrow> string \<Rightarrow> string" where
  "env_or_empty w k = (case env_get w k of None \<Rightarrow> [] | Some s \<Rightarrow> s)"

definition env_present :: "world \<Rightarrow> string \<Rightarrow> bool" where
  "env_present w k = (case env_get w k of None \<Rightarrow> False | Some s \<Rightarrow> s \<noteq> [])"

definition new_client :: "world \<Rightarrow> js_error + unit" where
  "new_client w =
     createClient w (env_or_empty w ''SUPABASE_URL'') (env_or_empty w ''SUPABASE_SERVICE_ROLE_KEY'')"

text \<open>\<open>const { a, b, c } = v\<close>: the reads in order, a \<open>TypeError\<close> when \<open>v\<close> is \<open>null\<close>.\<close>

definition destructure3 ::
  "jsval \<Rightarrow> string \<Rightarrow> string \<Rightarrow> string \<Rightarrow> js_error + jsval \<times> jsval \<times> jsval" where
  "destructure3 v a b c =
     (case get_prop v a of
        Inl e \<Rightarrow> Inl e
      | Inr x \<Rightarrow>
          (case get_prop v b of
             Inl e \<Rightarrow> Inl e
           | Inr y \<Rightarrow> (case get_prop v c of Inl e \<Rightarrow> Inl e | Inr z \<Rightarrow> Inr (x, y, z))))"

definition validation_error :: "jsval \<Rightarrow> jsval \<Rightarrow> response" where
  "validation_error sid msg =
     json_response 400
       (JObj [(''error'', JStr ''session_id and message are required''),
              (''details'', JObj [(''session_id'', JBool (truthy sid)),
                                  (''message'', JBool (truthy msg))])])"

definition not_found_error :: "pg_error option \<Rightarrow> response" where
  "not_found_error notebookError =
     json_response 404
       (JObj [(''error'', JStr ''Notebook not found or access denied''),
              (''details'',
                 (case notebookError of None \<Rightarrow> JUndefined | Some e \<Rightarrow> JStr (pg_message e)))])"

definition sources_read_error :: "pg_error \<Rightarrow> response" where
  "sources_read_error sourcesError =
     json_response 500
       (JObj [(''error'', JStr ''Failed to check notebook sources''),
              (''details'', JStr (pg_message sourcesError))])"

definition ineligible_error :: response where
  "ineligible_error =
     json_response 400
       (JObj [(''error'', JStr ''No processed sources available for this notebook''),
              (''details'',
                 JStr ''Please wait for sources to finish processing before chatting'')])"

definition config_error :: "string \<Rightarrow> string \<Rightarrow> response" where
  "config_error err name =
     json_response 500
       (JObj [(''error'', JStr err),
              (''details'', JStr (name @ '' environment variable not set''))])"

definition success_envelope :: "string \<Rightarrow> response" where
  "success_envelope webhookData =
     json_response 200
       (JObj [(''success'', JBool True),
              (''message'', JStr ''Message sent to chat service successfully''),
              (''data'', JStr webhookData)])"

text \<open>\<open>sources?.some(source => source.processing_status === 'completed') || false\<close>\<close>

definition hasProcessedSources :: "source_row list option \<Rightarrow> bool" where
  "hasProcessedSources sources =
     (case sources of
        None \<Rightarrow> False
      | Some rows \<Rightarrow> list_ex (\<lambda>source. processing_status source = JStr ''completed'') rows)"

definition human_row :: "jsval \<Rightarrow> jsval \<Rightarrow> history_row" where
  "human_row sid msg =
     \<lparr>session_id = sid, msg_type = ''human'', msg_content = Raw msg,
      additional_kwargs = JObj [], response_metadata = JObj []\<rparr>"

text \<open>An assistant message: the envelope \<open>{output: [{text, citations: []}]}\<close>, serialised.\<close>

definition ai_row :: "jsval \<Rightarrow> string \<Rightarrow> jsval \<Rightarrow> history_row" where
  "ai_row sid txt meta =
     \<lparr>session_id = sid, msg_type = ''ai'',
      msg_content =
        JsonText (JObj [(''output'', JArr [JObj [(''text'', JStr txt), (''citations'', JArr [])]])]),
      additional_kwargs = JObj [], response_metadata = meta\<rparr>"

definition webhook_payload :: "world \<Rightarrow> jsval \<Rightarrow> jsval \<Rightarrow> jsval \<Rightarrow> jsval" where
  "webhook_payload w sid msg user_id =
     JObj [(''session_id'', sid), (''message'', msg), (''user_id'', user_id),
           (''timestamp'', JStr (clock w 0))]"

text \<open>
  From reading the request to the webhook call. The two relay handlers of the file are
  the same text up to here (lines 16 to 163 of the first, 280 to 427 of the second).
  The result is the conversation identifier and the webhook's reply.
\<close>

definition relay_front :: "world \<Rightarrow> request \<Rightarrow> (jsval \<times> webhook_response) proc" where
  "relay_front w req =
     bind (eval (req_json req)) (\<lambda>body.
     bind (eval (destructure3 body ''session_id'' ''message'' ''user_id''))
       (\<lambda>(sid, msg, user_id).
     if \<not> truthy sid \<or> \<not> truthy msg then (Return (validation_error sid msg), [])
     else
     bind (eval (new_client w)) (\<lambda>_.
     bind (call (SelectNotebook ''id, title, user_id'' sid)
                (notebooks_single w ''id, title, user_id'' sid)) (\<lambda>nb.
     if error nb \<noteq> None \<or> \<not> truthy (data nb) then (Return (not_found_error (error nb)), [])
     else
     bind (call (SelectSources ''id, processing_status'' sid)
                (sources_select w ''id, processing_status'' sid)) (\<lambda>src.
     case error src of
       Some sourcesError \<Rightarrow> (Return (sources_read_error sourcesError), [])
     | None \<Rightarrow>
     if \<not> hasProcessedSources (data src) then (Return ineligible_error, [])
     else
     bind (call (InsertChatHistory (human_row sid msg))
                (chat_histories_insert w (human_row sid msg))) (\<lambda>userMessageError.
     if \<not> env_present w ''NOTEBOOK_CHAT_URL''
     then (Return (config_error ''Chat service not configured'' ''NOTEBOOK_CHAT_URL''), [])
     else if \<not> env_present w ''NOTEBOOK_GENERATION_AUTH''
     then (Return (config_error ''Chat service authentication not configured''
                     ''NOTEBOOK_GENERATION_AUTH''), [])
     else
     bind (call (Fetch (env_or_empty w ''NOTEBOOK_CHAT_URL'')
                       (env_or_empty w ''NOTEBOOK_GENERATION_AUTH'')
                       (webhook_payload w sid msg user_id))
                (fetch w (env_or_empty w ''NOTEBOOK_CHAT_URL'')
                         (env_or_empty w ''NOTEBOOK_GENERATION_AUTH'')
                         (webhook_payload w sid msg user_id))) (\<lambda>webhookResponse.
     (Next (sid, webhookResponse), []))))))))"

text \<open>\<open>webhookResponse.ok\<close>\<close>

definition response_ok :: "nat \<Rightarrow> bool" where
  "response_ok st = (200 \<le> st \<and> st \<le> 299)"

text \<open>The branch \<open>if (!webhookResponse.ok)\<close>, the same in both handlers.\<close>

definition status_error_text :: "nat \<Rightarrow> string" where
  "status_error_text st =
     ''Sorry, I encountered an error processing your request. The chat service responded with status ''
     @ string_of_nat st @ ''. Please check your n8n configuration and try again.''"

definition status_error_row :: "jsval \<Rightarrow> nat \<Rightarrow> history_row" where
  "status_error_row sid st =
     ai_row sid (status_error_text st) (JObj [(''error'', JBool True), (''status'', JNum (int st))])"

definition webhook_failed :: "nat \<Rightarrow> string \<Rightarrow> response" where
  "webhook_failed st errorText =
     json_response 500
       (JObj [(''error'', JStr (''n8n webhook failed with status: '' @ string_of_nat st)),
              (''details'', JStr errorText),
              (''suggestion'', JStr ''Check your n8n workflow configuration and credentials'')])"

definition not_ok_branch :: "world \<Rightarrow> jsval \<Rightarrow> webhook_response \<Rightarrow> response proc" where
  "not_ok_branch w sid webhookResponse =
     bind (eval (wr_text webhookResponse)) (\<lambda>errorText.
     bind (call (InsertChatHistory (status_error_row sid (wr_status webhookResponse)))
                (chat_histories_insert w (status_error_row sid (wr_status webhookResponse))))
       (\<lambda>_.
     (Return (webhook_failed (wr_status webhookResponse) errorText), [])))"

text \<open>The first relay handler: any 2xx reply is forwarded as it is.\<close>

definition handle_reply_v1 :: "world \<Rightarrow> jsval \<Rightarrow> webhook_response \<Rightarrow> response proc" where
  "handle_reply_v1 w sid webhookResponse =
     (if \<not> response_ok (wr_status webhookResponse) then not_ok_branch w sid webhookResponse
      else
        bind (eval (wr_text webhookResponse)) (\<lambda>webhookData.
        (Return (success_envelope webhookData), [])))"

text \<open>
  The second relay handler looks into a 2xx reply:
  \<^verbatim>\<open>parsedResponse.error || (parsedResponse.output && parsedResponse.output.some(
     (item) => item.text && item.text.includes('Sorry, I encountered an error')))\<close>
\<close>

definition apology :: string where
  "apology = ''Sorry, I encountered an error''"

text \<open>\<open>t.includes(s)\<close> on a truthy \<open>t\<close>: strings and arrays have the method.\<close>

definition includes_call :: "jsval \<Rightarrow> string \<Rightarrow> js_error + bool" where
  "includes_call t s =
     (case t of
        JStr u \<Rightarrow> Inr (str_includes u s)
      | JArr xs \<Rightarrow> Inr (List.member xs (JStr s))
      | _ \<Rightarrow> Inl (JsError ''item.text.includes is not a function''))"

definition item_reports_error :: "jsval \<Rightarrow> js_error + bool" where
  "item_reports_error item =
     (case get_prop item ''text'' of
        Inl e \<Rightarrow> Inl e
      | Inr t \<Rightarrow> if truthy t then includes_call t apology else Inr False)"

text \<open>\<open>Array.prototype.some\<close>: left to right, stopping at the first hit or fault.\<close>

fun array_some :: "('a \<Rightarrow> js_error + bool) \<Rightarrow> 'a list \<Rightarrow> js_error + bool" where
  "array_some f [] = Inr False"
| "array_some f (x # xs) =
     (case f x of Inl e \<Rightarrow> Inl e | Inr b \<Rightarrow> if b then Inr True else array_some f xs)"

definition some_call :: "jsval \<Rightarrow> (jsval \<Rightarrow> js_error + bool) \<Rightarrow> js_error + bool" where
  "some_call v f =
     (case v of
        JArr xs \<Rightarrow> array_some f xs
      | _ \<Rightarrow> Inl (JsError ''parsedResponse.output.some is not a function''))"

definition response_indicates_error :: "jsval \<Rightarrow> js_error + bool" where
  "response_indicates_error parsedResponse =
     (case get_prop parsedResponse ''error'' of
        Inl e \<Rightarrow> Inl e
      | Inr err \<Rightarrow>
          if truthy err then Inr True
          else
            (case get_prop parsedResponse ''output'' of
               Inl e \<Rightarrow> Inl e
             | Inr output \<Rightarrow>
                 if truthy output then some_call output item_reports_error else Inr False))"

definition workflow_error_text :: string where
  "workflow_error_text =
     ''I'm having trouble accessing your sources right now. This could be due to:''
     @ [CHR 0x0A, CHR 0x0A]
     @ ''1. **Sources still processing** - Please wait for all sources to finish processing''
     @ [CHR 0x0A]
     @ ''2. **n8n workflow configuration** - Check your n8n Chat workflow credentials and connections''
     @ [CHR 0x0A]
     @ ''3. **Vector store issues** - Verify your Supabase vector store is properly configured''
     @ [CHR 0x0A]
     @ ''4. **Missing API keys** - Ensure OpenAI and other required API keys are set in n8n''
     @ [CHR 0x0A, CHR 0x0A]
     @ ''Please check your n8n workflow logs for more details.''"

definition workflow_error_row :: "world \<Rightarrow> jsval \<Rightarrow> jsval \<Rightarrow> history_row" where
  "workflow_error_row w sid parsedResponse =
     ai_row sid workflow_error_text
       (JObj [(''error'', JBool True), (''n8n_response'', parsedResponse),
              (''timestamp'', JStr (clock w 1))])"

definition workflow_failed :: "jsval \<Rightarrow> response" where
  "workflow_failed parsedResponse =
     json_response 500
       (JObj [(''success'', JBool False),
              (''error'', JStr ''n8n workflow returned an error''),
              (''details'', JStr ''Check the chat for debugging information''),
              (''n8n_response'', parsedResponse)])"

text \<open>The body of the inner \<open>try\<close> (lines 470 to 516): parse, test, and on a hit write
  the assistant message and return the error response.\<close>

definition inspect_reply :: "world \<Rightarrow> jsval \<Rightarrow> string \<Rightarrow> unit proc" where
  "inspect_reply w sid webhookData =
     (case JSON_parse w webhookData of
        None \<Rightarrow> (Throw (JsError ''Unexpected token in JSON''), [])
      | Some parsedResponse \<Rightarrow>
          bind (eval (response_indicates_error parsedResponse)) (\<lambda>hit.
          if hit then
            bind (call (InsertChatHistory (workflow_error_row w sid parsedResponse))
                       (chat_histories_insert w (workflow_error_row w sid parsedResponse)))
              (\<lambda>_.
            (Return (workflow_failed parsedResponse), []))
          else (Next (), [])))"

definition handle_reply_v2 :: "world \<Rightarrow> jsval \<Rightarrow> webhook_response \<Rightarrow> response proc" where
  "handle_reply_v2 w sid webhookResponse =
     (if \<not> response_ok (wr_status webhookResponse) then not_ok_branch w sid webhookResponse
      else
        bind (eval (wr_text webhookResponse)) (\<lambda>webhookData.
        bind (attempt (inspect_reply w sid webhookData)) (\<lambda>_.
        (Return (success_envelope webhookData), []))))"

text \<open>The catch-all handler (lines 218 to 263 and 534 to 579, the same text).\<close>

definition technical_error_row :: "jsval \<Rightarrow> js_error \<Rightarrow> history_row" where
  "technical_error_row sid err =
     ai_row sid
       (''Sorry, I encountered a technical error: '' @ message err
        @ ''. Please try again or contact support if the issue persists.'')
       (JObj [(''error'', JBool True), (''errorMessage'', JStr (message err))])"

definition save_error_message :: "world \<Rightarrow> request \<Rightarrow> js_error \<Rightarrow> unit proc" where
  "save_error_message w req err =
     bind (eval (req_clone_json req)) (\<lambda>body.
     bind (eval (get_prop body ''session_id'')) (\<lambda>sid.
     if truthy sid then
       bind (eval (new_client w)) (\<lambda>_.
       bind (call (InsertChatHistory (technical_error_row sid err))
                  (chat_histories_insert w (technical_error_row sid err))) (\<lambda>_.
       (Next (), [])))
     else (Next (), [])))"

definition unexpected_error :: "js_error \<Rightarrow> response" where
  "unexpected_error err =
     json_response 500
       (JObj [(''error'',
                 JStr (if message err \<noteq> [] then message err
                       else ''Failed to send message to chat service'')),
              (''details'', JStr ''Check the function logs for more information'')])"

definition relay_catch :: "world \<Rightarrow> request \<Rightarrow> js_error \<Rightarrow> response proc" where
  "relay_catch w req err =
     bind (attempt (save_error_message w req err)) (\<lambda>_.
     (Return (unexpected_error err), []))"

text \<open>The \<open>try\<close> blocks of the two handlers, and the handlers.\<close>

definition relay_try_v1 :: "world \<Rightarrow> request \<Rightarrow> response proc" where
  "relay_try_v1 w req =
     bind (relay_front w req) (\<lambda>(sid, webhookResponse). handle_reply_v1 w sid webhookResponse)"

definition relay_try_v2 :: "world \<Rightarrow> request \<Rightarrow> response proc" where
  "relay_try_v2 w req =
     bind (relay_front w req) (\<lambda>(sid, webhookResponse). handle_reply_v2 w sid webhookResponse)"

definition serve_relay_v1 :: "world \<Rightarrow> request \<Rightarrow> (js_error + response) \<times> event list" where
  "serve_relay_v1 w req =
     run (if req_method req = ''OPTIONS'' then (Return preflight, [])
          else try_catch (relay_try_v1 w req) (relay_catch w req))"

definition serve_relay_v2 :: "world \<Rightarrow> request \<Rightarrow> (js_error + response) \<times> event list" where
  "serve_relay_v2 w req =
     run (if req_method req = ''OPTIONS'' then (Return preflight, [])
          else try_catch (relay_try_v2 w req) (relay_catch w req))"

section \<open>The diagnostics handler\<close>

definition opt_message :: "pg_error option \<Rightarrow> jsval" where
  "opt_message err = (case err of None \<Rightarrow> JUndefined | Some e \<Rightarrow> JStr (pg_message e))"

definition row_count :: "'a list option \<Rightarrow> nat" where
  "row_count rows = (case rows of None \<Rightarrow> 0 | Some xs \<Rightarrow> length xs)"

text \<open>\<open>Deno.env.get('NOTEBOOK_CHAT_URL') || 'NOT_SET'\<close>\<close>

definition notebookChatUrl :: "world \<Rightarrow> string" where
  "notebookChatUrl w =
     (if env_present w ''NOTEBOOK_CHAT_URL'' then env_or_empty w ''NOTEBOOK_CHAT_URL''
      else ''NOT_SET'')"

definition environment_section :: "world \<Rightarrow> jsval" where
  "environment_section w =
     JObj [(''hasNotebookChatUrl'', JBool (env_present w ''NOTEBOOK_CHAT_URL'')),
           (''hasNotebookGenerationAuth'', JBool (env_present w ''NOTEBOOK_GENERATION_AUTH'')),
           (''hasSupabaseUrl'', JBool (env_present w ''SUPABASE_URL'')),
           (''hasSupabaseServiceKey'', JBool (env_present w ''SUPABASE_SERVICE_ROLE_KEY'')),
           (''notebookChatUrl'', JStr (notebookChatUrl w))]"

definition notebook_section :: "jsval query_result \<Rightarrow> jsval" where
  "notebook_section nb =
     JObj [(''exists'', JBool (truthy (data nb))),
           (''error'', opt_message (error nb)),
           (''data'', data nb)]"

definition source_status :: "source_row \<Rightarrow> jsval" where
  "source_status s =
     JObj [(''id'', src_id s), (''title'', src_title s), (''status'', processing_status s)]"

definition sources_section :: "source_row list option query_result \<Rightarrow> jsval" where
  "sources_section src =
     JObj [(''count'', JNum (int (row_count (data src)))),
           (''error'', opt_message (error src)),
           (''statuses'',
              (case data src of None \<Rightarrow> JUndefined | Some rows \<Rightarrow> JArr (map source_status rows))),
           (''hasCompleted'', JBool (hasProcessedSources (data src)))]"

definition vectorStore_section :: "jsval list option query_result \<Rightarrow> jsval" where
  "vectorStore_section docs =
     JObj [(''documentCount'', JNum (int (row_count (data docs)))),
           (''error'', opt_message (error docs)),
           (''hasDocuments'', JBool (row_count (data docs) > 0))]"

text \<open>\<open>msg.message?.response_metadata?.error || false\<close>\<close>

definition recent_message :: "chat_row \<Rightarrow> jsval" where
  "recent_message msg =
     JObj [(''id'', row_id msg),
           (''type'', opt_prop (row_message msg) ''type''),
           (''hasError'',
              (if truthy (opt_prop (opt_prop (row_message msg) ''response_metadata'') ''error'')
               then opt_prop (opt_prop (row_message msg) ''response_metadata'') ''error''
               else JBool False))]"

definition chatHistory_section :: "chat_row list option query_result \<Rightarrow> jsval" where
  "chatHistory_section chat =
     JObj [(''messageCount'', JNum (int (row_count (data chat)))),
           (''error'', opt_message (error chat)),
           (''recentMessages'',
              (case data chat of None \<Rightarrow> JUndefined | Some rows \<Rightarrow> JArr (map recent_message rows)))]"

text \<open>\<open>if (c) recommendations.push(x)\<close>\<close>

definition push_if :: "bool \<Rightarrow> 'a \<Rightarrow> 'a list \<Rightarrow> 'a list" where
  "push_if c x xs = (if c then xs @ [x] else xs)"

definition rec_chat_url :: string where
  "rec_chat_url = ''Set NOTEBOOK_CHAT_URL in Supabase Edge Function secrets''"

definition rec_auth :: string where
  "rec_auth = ''Set NOTEBOOK_GENERATION_AUTH in Supabase Edge Function secrets''"

definition rec_notebook :: string where
  "rec_notebook = ''Notebook not found - check the notebook ID''"

definition rec_sources :: string where
  "rec_sources = ''No completed sources found - wait for source processing to complete''"

definition rec_documents :: string where
  "rec_documents =
     ''No documents in vector store - check if sources were properly processed and embedded''"

definition rec_webhook :: string where
  "rec_webhook = ''NOTEBOOK_CHAT_URL should be a valid n8n webhook URL''"

text \<open>The six tests of lines 688 to 710, on the values the sections hold.\<close>

definition recommendations ::
  "bool \<Rightarrow> bool \<Rightarrow> bool \<Rightarrow> bool \<Rightarrow> bool \<Rightarrow> string \<Rightarrow> string list" where
  "recommendations hasNotebookChatUrl hasNotebookGenerationAuth notebook_exists hasCompleted
       hasDocuments chatUrl =
     (let r = [];
          r = push_if (\<not> hasNotebookChatUrl) rec_chat_url r;
          r = push_if (\<not> hasNotebookGenerationAuth) rec_auth r;
          r = push_if (\<not> notebook_exists) rec_notebook r;
          r = push_if (\<not> hasCompleted) rec_sources r;
          r = push_if (\<not> hasDocuments) rec_documents r;
          r = push_if (chatUrl \<noteq> [] \<and> \<not> str_includes chatUrl ''webhook'') rec_webhook r
      in r)"

definition overallStatus :: "string list \<Rightarrow> string" where
  "overallStatus recs = (if length recs = 0 then ''HEALTHY'' else ''ISSUES_FOUND'')"

definition report_recommendations ::
  "world \<Rightarrow> jsval query_result \<Rightarrow> source_row list option query_result \<Rightarrow>
   jsval list option query_result \<Rightarrow> string list" where
  "report_recommendations w nb src docs =
     recommendations (env_present w ''NOTEBOOK_CHAT_URL'')
       (env_present w ''NOTEBOOK_GENERATION_AUTH'') (truthy (data nb))
       (hasProcessedSources (data src)) (row_count (data docs) > 0) (notebookChatUrl w)"

definition diagnostics_report ::
  "world \<Rightarrow> jsval \<Rightarrow> jsval query_result \<Rightarrow> source_row list option query_result \<Rightarrow>
   jsval list option query_result \<Rightarrow> chat_row list option query_result \<Rightarrow> jsval" where
  "diagnostics_report w notebookId nb src docs chat =
     JObj [(''notebookId'', notebookId),
           (''timestamp'', JStr (clock w 0)),
           (''environment'', environment_section w),
           (''notebook'', notebook_section nb),
           (''sources'', sources_section src),
           (''vectorStore'', vectorStore_section docs),
           (''chatHistory'', chatHistory_section chat),
           (''recommendations'', JArr (map JStr (report_recommendations w nb src docs))),
           (''overallStatus'', JStr (overallStatus (report_recommendations w nb src docs)))]"

definition diagnostics_try :: "world \<Rightarrow> request \<Rightarrow> response proc" where
  "diagnostics_try w req =
     bind (eval (req_json req)) (\<lambda>body.
     bind (eval (get_prop body ''notebookId'')) (\<lambda>notebookId.
     if \<not> truthy notebookId
     then (Return (json_response 400 (JObj [(''error'', JStr ''Notebook ID is required'')])), [])
     else
     bind (eval (new_client w)) (\<lambda>_.
     bind (call (SelectNotebook ''*'' notebookId) (notebooks_single w ''*'' notebookId)) (\<lambda>nb.
     bind (call (SelectSources ''id, title, type, processing_status, created_at'' notebookId)
                (sources_select w ''id, title, type, processing_status, created_at'' notebookId))
       (\<lambda>src.
     bind (call (SelectDocuments notebookId) (documents_select w notebookId)) (\<lambda>docs.
     bind (call (SelectChatHistory notebookId) (chat_histories_recent w notebookId)) (\<lambda>chat.
     (Return (json_response 200 (diagnostics_report w notebookId nb src docs chat)), []))))))))"

definition diagnostics_failed :: "world \<Rightarrow> js_error \<Rightarrow> response" where
  "diagnostics_failed w err =
     json_response 500
       (JObj [(''error'', JStr (if message err \<noteq> [] then message err else ''Diagnostics failed'')),
              (''timestamp'', JStr (clock w 1))])"

definition serve_diagnostics :: "world \<Rightarrow> request \<Rightarrow> (js_error + response) \<times> event list" where
  "serve_diagnostics w req =
     run (if req_method req = ''OPTIONS''
          then (Return \<lparr>resp_status = 200, resp_headers = corsHeaders, resp_body = TextBody ''ok''\<rparr>, [])
          else try_catch (diagnostics_try w req) (\<lambda>err. (Return (diagnostics_failed w err), [])))"

section \<open>Outcomes of a dispatch\<close>

text \<open>
  The three ways the second relay handler treats a webhook reply of status \<open>st\<close> and
  text \<open>txt\<close>: the test of \<open>webhookResponse.ok\<close> first, then the parse, then the test of
  the parsed value; a fault anywhere in the inner \<open>try\<close> counts as success.
\<close>

datatype outcome = TransportFailure | SemanticFailure | Success

definition classify :: "world \<Rightarrow> nat \<Rightarrow> string \<Rightarrow> outcome" where
  "classify w st txt =
     (if \<not> response_ok st then TransportFailure
      else
        (case JSON_parse w txt of
           None \<Rightarrow> Success
         | Some parsedResponse \<Rightarrow>
             (case response_indicates_error parsedResponse of
                Inl e \<Rightarrow> Success
              | Inr hit \<Rightarrow> if hit then SemanticFailure else Success)))"

text \<open>
  What the test of the parsed value amounts to. An element of \<open>output\<close> is a hit when its
  \<open>text\<close> is a string that has the apology as a piece (or an array that has it as an
  element); the test throws on an element that is \<open>null\<close> or whose \<open>text\<close> is truthy and
  has no \<open>includes\<close> method. The scan of \<open>output\<close> ends at the first element that throws.
\<close>

definition text_hit :: "jsval \<Rightarrow> bool" where
  "text_hit item =
     (case opt_prop item ''text'' of
        JStr t \<Rightarrow> str_includes t apology
      | JArr xs \<Rightarrow> List.member xs (JStr apology)
      | _ \<Rightarrow> False)"

definition test_throws :: "jsval \<Rightarrow> bool" where
  "test_throws item =
     (case item of
        JUndefined \<Rightarrow> True
      | JNull \<Rightarrow> True
      | _ \<Rightarrow>
        (case opt_prop item ''text'' of
           JBool b \<Rightarrow> b
         | JNum n \<Rightarrow> n \<noteq> 0
         | JObj fs \<Rightarrow> True
         | _ \<Rightarrow> False))"

definition reply_reports_error :: "jsval \<Rightarrow> bool" where
  "reply_reports_error p =
     (truthy (opt_prop p ''error'') \<or>
      (case opt_prop p ''output'' of
         JArr items \<Rightarrow> list_ex text_hit (takeWhile (\<lambda>item. \<not> test_throws item) items)
       | _ \<Rightarrow> False))"

text \<open>
  The classification in the words of the specification: a 2xx reply is a semantic
  failure when its body parses and either contains an \<open>error\<close> field, or contains an
  \<open>output\<close> array where any element's \<open>text\<close> includes the apology.
\<close>

definition spec_has_field :: "jsval \<Rightarrow> string \<Rightarrow> bool" where
  "spec_has_field v k = (case v of JObj fs \<Rightarrow> List.member (map fst fs) k | _ \<Rightarrow> False)"

definition spec_item_apologises :: "jsval \<Rightarrow> bool" where
  "spec_item_apologises item =
     (case opt_prop item ''text'' of JStr t \<Rightarrow> str_includes t apology | _ \<Rightarrow> False)"

definition spec_semantic_failure :: "jsval \<Rightarrow> bool" where
  "spec_semantic_failure p =
     (spec_has_field p ''error'' \<or>
      (case opt_prop p ''output'' of
         JArr items \<Rightarrow> list_ex spec_item_apologises items
       | _ \<Rightarrow> False))"

definition spec_classify :: "world \<Rightarrow> nat \<Rightarrow> string \<Rightarrow> outcome" where
  "spec_classify w st txt =
     (if \<not> response_ok st then TransportFailure
      else
        (case JSON_parse w txt of
           None \<Rightarrow> Success
         | Some p \<Rightarrow> if spec_semantic_failure p then SemanticFailure else Success))"

text \<open>Whether a webhook reply is one the second handler reports as a workflow error.\<close>

definition semantic_hit :: "world \<Rightarrow> webhook_response \<Rightarrow> bool" where
  "semantic_hit w webhookResponse =
     (case wr_text webhookResponse of
        Inl e \<Rightarrow> False
      | Inr txt \<Rightarrow> classify w (wr_status webhookResponse) txt = SemanticFailure)"

text \<open>Readers of a handler's result.\<close>

definition is_read :: "event \<Rightarrow> bool" where
  "is_read ev =
     (case ev of
        SelectNotebook c i \<Rightarrow> True
      | SelectSources c i \<Rightarrow> True
      | SelectDocuments i \<Rightarrow> True
      | SelectChatHistory i \<Rightarrow> True
      | InsertChatHistory r \<Rightarrow> False
      | Fetch u a p \<Rightarrow> False)"

definition history_writes :: "event list \<Rightarrow> history_row list" where
  "history_writes evs =
     concat (map (\<lambda>ev. case ev of InsertChatHistory r \<Rightarrow> [r] | _ \<Rightarrow> []) evs)"

definition body_field :: "(js_error + response) \<times> event list \<Rightarrow> string \<Rightarrow> jsval" where
  "body_field res k =
     (case fst res of
        Inl e \<Rightarrow> JUndefined
      | Inr r \<Rightarrow> (case resp_body r of JsonBody v \<Rightarrow> opt_prop v k | _ \<Rightarrow> JUndefined))"

definition body_keys :: "(js_error + response) \<times> event list \<Rightarrow> string list" where
  "body_keys res =
     (case fst res of
        Inl e \<Rightarrow> []
      | Inr r \<Rightarrow>
          (case resp_body r of
             JsonBody (JObj fs) \<Rightarrow> map fst (filter (\<lambda>(k, v). v \<noteq> JUndefined) fs)
           | _ \<Rightarrow> []))"

section \<open>Sample requests and worlds\<close>

definition sample_body :: jsval where
  "sample_body =
     JObj [(''session_id'', JStr ''nb-1''),
           (''message'', JStr ''What is the capital of France?''),
           (''user_id'', JStr ''u-1'')]"

definition sample_request :: request where
  "sample_request =
     \<lparr>req_method = ''POST'', req_json = Inr sample_body,
      req_clone_json = Inl (JsError ''Body already consumed'')\<rparr>"

definition sample_diagnostics_request :: request where
  "sample_diagnostics_request =
     \<lparr>req_method = ''POST'', req_json = Inr (JObj [(''notebookId'', JStr ''nb-1'')]),
      req_clone_json = Inl (JsError ''Body already consumed'')\<rparr>"

text \<open>Four webhook bodies and what \<open>JSON.parse\<close> makes of them.\<close>

definition apology_body :: string where
  "apology_body =
     ''{\"output\":[{\"text\":\"Sorry, I encountered an error talking to the model\",\"citations\":[]}]}''"

definition apology_value :: jsval where
  "apology_value =
     JObj [(''output'',
            JArr [JObj [(''text'', JStr ''Sorry, I encountered an error talking to the model''),
                        (''citations'', JArr [])]])]"

definition paris_body :: string where
  "paris_body = ''{\"output\":[{\"text\":\"Paris is the capital of France\",\"citations\":[]}]}''"

definition paris_value :: jsval where
  "paris_value =
     JObj [(''output'',
            JArr [JObj [(''text'', JStr ''Paris is the capital of France''),
                        (''citations'', JArr [])]])]"

definition error_false_body :: string where
  "error_false_body = ''{\"error\":false}''"

definition error_false_value :: jsval where
  "error_false_value = JObj [(''error'', JBool False)]"

definition null_first_body :: string where
  "null_first_body = ''{\"output\":[null,{\"text\":\"Sorry, I encountered an error\"}]}''"

definition null_first_value :: jsval where
  "null_first_value =
     JObj [(''output'', JArr [JNull, JObj [(''text'', JStr ''Sorry, I encountered an error'')]])]"

definition sample_parse :: "string \<Rightarrow> jsval option" where
  "sample_parse txt =
     (if txt = apology_body then Some apology_value
      else if txt = paris_body then Some paris_value
      else if txt = error_false_body then Some error_false_value
      else if txt = null_first_body then Some null_first_value
      else None)"

definition sample_env :: "string \<Rightarrow> string option" where
  "sample_env k =
     (if k = ''SUPABASE_URL'' then Some ''https://db.example.com''
      else if k = ''SUPABASE_SERVICE_ROLE_KEY'' then Some ''service-key''
      else if k = ''NOTEBOOK_CHAT_URL'' then Some ''https://n8n.example.com/webhook/chat''
      else if k = ''NOTEBOOK_GENERATION_AUTH'' then Some ''shared-secret''
      else None)"

definition sample_source :: source_row where
  "sample_source =
     \<lparr>src_id = JStr ''s-1'', src_title = JStr ''Atlas'', processing_status = JStr ''completed''\<rparr>"

text \<open>
  A world where everything works: the conversation \<open>nb-1\<close> exists with one completed
  source and one indexed document, and the webhook answers \<open>reply\<close>.
\<close>

definition sample_world :: "webhook_response \<Rightarrow> world" where
  "sample_world reply =
     \<lparr>env_get = sample_env,
      clock = (\<lambda>k. ''2024-05-01T10:00:00.000Z''),
      createClient = (\<lambda>url key. Inr ()),
      notebooks_single = (\<lambda>cols i. Inr \<lparr>data = JObj [(''id'', i)], error = None\<rparr>),
      sources_select = (\<lambda>cols i. Inr \<lparr>data = Some [sample_source], error = None\<rparr>),
      documents_select = (\<lambda>i. Inr \<lparr>data = Some [JObj [(''id'', JNum 1)]], error = None\<rparr>),
      chat_histories_recent = (\<lambda>i. Inr \<lparr>data = Some [], error = None\<rparr>),
      chat_histories_insert = (\<lambda>row. Inr None),
      fetch = (\<lambda>url auth payload. Inr reply),
      JSON_parse = sample_parse\<rparr>"

definition reply_with :: "nat \<Rightarrow> string \<Rightarrow> webhook_response" where
  "reply_with st txt = \<lparr>wr_status = st, wr_text = Inr txt\<rparr>"

text \<open>The same world with the webhook endpoint not configured.\<close>

definition env_without_chat_url :: "string \<Rightarrow> string option" where
  "env_without_chat_url k = (if k = ''NOTEBOOK_CHAT_URL'' then None else sample_env k)"

text \<open>A storage service that answers every read with an error result.\<close>

definition unreachable :: pg_error where
  "unreachable = PostgrestError ''TypeError: error sending request''"

definition unreachable_world :: world where
  "unreachable_world =
     (sample_world (reply_with 200 ''ok''))
       \<lparr>notebooks_single := (\<lambda>cols i. Inr \<lparr>data = JNull, error = Some unreachable\<rparr>),
        sources_select := (\<lambda>cols i. Inr \<lparr>data = None, error = Some unreachable\<rparr>),
        documents_select := (\<lambda>i. Inr \<lparr>data = None, error = Some unreachable\<rparr>),
        chat_histories_recent := (\<lambda>i. Inr \<lparr>data = None, error = Some unreachable\<rparr>)\<rparr>"

text \<open>A request with an empty message.\<close>

definition request_without_message :: request where
  "request_without_message =
     \<lparr>req_method = ''POST'',
      req_json = Inr (JObj [(''session_id'', JStr ''nb-1''), (''message'', JStr '''')]),
      req_clone_json = Inl (JsError ''Body already consumed'')\<rparr>"

text \<open>Requests whose body is the JSON value \<open>null\<close>, and whose body is not JSON at all.\<close>

definition null_body_request :: request where
  "null_body_request =
     \<lparr>req_method = ''POST'', req_json = Inr JNull,
      req_clone_json = Inl (JsError ''Body already consumed'')\<rparr>"

definition undecodable_request :: request where
  "undecodable_request =
     \<lparr>req_method = ''POST'', req_json = Inl (JsError ''Unexpected end of JSON input''),
      req_clone_json = Inl (JsError ''Body already consumed'')\<rparr>"

text \<open>Worlds where the only source is still processing, where the sources read fails,
  where the webhook endpoint is not configured, and where in addition the conversation
  is not found.\<close>

definition pending_world :: world where
  "pending_world =
     (sample_world (reply_with 200 ''ok''))
       \<lparr>sources_select :=
          (\<lambda>cols i. Inr \<lparr>data = Some [sample_source\<lparr>processing_status := JStr ''processing''\<rparr>],
                          error = None\<rparr>)\<rparr>"

definition sources_down_world :: world where
  "sources_down_world =
     (sample_world (reply_with 200 ''ok''))
       \<lparr>sources_select := (\<lambda>cols i. Inr \<lparr>data = None, error = Some unreachable\<rparr>)\<rparr>"

definition no_chat_url_world :: world where
  "no_chat_url_world = (sample_world (reply_with 200 ''ok''))\<lparr>env_get := env_without_chat_url\<rparr>"

definition no_notebook_world :: world where
  "no_notebook_world =
     no_chat_url_world
       \<lparr>notebooks_single :=
          (\<lambda>cols i. Inr \<lparr>data = JNull, error = Some (PostgrestError ''no rows returned'')\<rparr>)\<rparr>"

text \<open>A world whose history inserts throw, and a request whose body can be read again.\<close>

definition storage_down_world :: world where
  "storage_down_world =
     (sample_world (reply_with 200 ''ok''))
       \<lparr>chat_histories_insert := (\<lambda>row. Inl (JsError ''storage is down''))\<rparr>"

definition replayable_request :: request where
  "replayable_request = sample_request\<lparr>req_clone_json := Inr sample_body\<rparr>"

text \<open>The calls of a relay run that reaches the webhook, in the sample world.\<close>

definition sample_trace :: "event list" where
  "sample_trace =
     [SelectNotebook ''id, title, user_id'' (JStr ''nb-1''),
      SelectSources ''id, processing_status'' (JStr ''nb-1''),
      InsertChatHistory (human_row (JStr ''nb-1'') (JStr ''What is the capital of France?'')),
      Fetch ''https://n8n.example.com/webhook/chat'' ''shared-secret''
        (JObj [(''session_id'', JStr ''nb-1''),
               (''message'', JStr ''What is the capital of France?''),
               (''user_id'', JStr ''u-1''),
               (''timestamp'', JStr ''2024-05-01T10:00:00.000Z'')])]"

text \<open>A world where the storage client cannot be built.\<close>

definition no_client_world :: world where
  "no_client_world =
     (sample_world (reply_with 200 ''ok''))
       \<lparr>createClient := (\<lambda>url key. Inl (JsError ''supabaseUrl is required.''))\<rparr>"

section \<open>Basic facts about the control flow\<close>

lemma bind_simps:
  "bind (Throw e, evs) f = (Throw e, evs)"
  "bind (Return r, evs) f = (Return r, evs)"
  "bind (Next a, evs) f = (fst (f a), evs @ snd (f a))"
  by (simp_all add: bind_def split: prod.splits)

lemma eval_simps:
  "eval (Inl e) = (Throw e, [])"
  "eval (Inr a) = (Next a, [])"
  by (simp_all add: eval_def)

lemma call_simps:
  "call ev (Inl e) = (Throw e, [ev])"
  "call ev (Inr a) = (Next a, [ev])"
  by (simp_all add: call_def)

lemma attempt_simps:
  "attempt (Throw e, evs) = (Next (), evs)"
  "attempt (Return r, evs) = (Return r, evs)"
  "attempt (Next a, evs) = (Next (), evs)"
  by (simp_all add: attempt_def)

lemma try_catch_simps:
  "try_catch (Throw e, evs) h = (fst (h e), evs @ snd (h e))"
  "try_catch (Return r, evs) h = (Return r, evs)"
  "try_catch (Next a, evs) h = (Next a, evs)"
  by (simp_all add: try_catch_def split: prod.splits)

lemma run_simps:
  "run (Throw e, evs) = (Inl e, evs)"
  "run (Return r, evs) = (Inr r, evs)"
  "run (Next r, evs) = (Inr r, evs)"
  by (simp_all add: run_def)

lemmas flow_simps = bind_simps eval_simps call_simps attempt_simps try_catch_simps run_simps

text \<open>\<open>str_includes\<close> is the contiguous-sublist relation of the library.\<close>

lemma str_includes_sublist: "str_includes s sub \<longleftrightarrow> sublist sub s"
proof (induction s)
  case Nil
  show ?case by auto
next
  case (Cons c cs)
  have "take (length sub) (c # cs) = sub \<longleftrightarrow> prefix sub (c # cs)"
    by (metis append_eq_conv_conj prefix_def append_take_drop_id)
  with Cons show ?case
    by (simp add: sublist_Cons_right)
qed

section \<open>Classification of the webhook reply\<close>

lemma apology_nonempty: "apology \<noteq> []"
  by (simp add: apology_def)

lemma item_throws:
  "test_throws item \<Longrightarrow> \<exists>e. item_reports_error item = Inl e"
  by (cases item)
     (auto simp: test_throws_def item_reports_error_def opt_prop_def includes_call_def
           split: option.splits jsval.splits)

lemma item_total:
  "\<not> test_throws item \<Longrightarrow> item_reports_error item = Inr (text_hit item)"
  by (cases item)
     (auto simp: test_throws_def item_reports_error_def opt_prop_def includes_call_def text_hit_def
                 apology_nonempty
           split: option.splits jsval.splits)

lemma array_some_scan:
  "array_some item_reports_error xs = Inr True
   \<longleftrightarrow> list_ex text_hit (takeWhile (\<lambda>item. \<not> test_throws item) xs)"
proof (induction xs)
  case Nil
  show ?case by simp
next
  case (Cons x xs)
  show ?case
  proof (cases "test_throws x")
    case True
    then obtain e where "item_reports_error x = Inl e" using item_throws by blast
    with True show ?thesis by simp
  next
    case False
    then have "item_reports_error x = Inr (text_hit x)" by (rule item_total)
    with False Cons.IH show ?thesis by simp
  qed
qed

lemma indicates_error_iff:
  "response_indicates_error p = Inr True \<longleftrightarrow> reply_reports_error p"
  by (cases p)
     (auto simp: response_indicates_error_def reply_reports_error_def opt_prop_def some_call_def
                 array_some_scan
           split: option.splits jsval.splits sum.splits)

text \<open>\<open>classify\<close> is the decision the second handler takes on a reply whose body can be
  read: it fixes the branch, and with it the response and the history write.\<close>

lemma handle_reply_v2_outcomes:
  assumes "wr_text webhookResponse = Inr t"
  shows "handle_reply_v2 w sid webhookResponse =
     (case classify w (wr_status webhookResponse) t of
        TransportFailure \<Rightarrow> not_ok_branch w sid webhookResponse
      | Success \<Rightarrow> (Return (success_envelope t), [])
      | SemanticFailure \<Rightarrow>
          (case JSON_parse w t of
             None \<Rightarrow> (Return (success_envelope t), [])
           | Some p \<Rightarrow>
               (Return (case chat_histories_insert w (workflow_error_row w sid p) of
                          Inl e \<Rightarrow> success_envelope t
                        | Inr insertError \<Rightarrow> workflow_failed p),
                [InsertChatHistory (workflow_error_row w sid p)])))"
proof (cases "response_ok (wr_status webhookResponse)")
  case False
  then show ?thesis by (simp add: handle_reply_v2_def classify_def)
next
  case ok: True
  show ?thesis
  proof (cases "JSON_parse w t")
    case None
    with ok assms show ?thesis
      by (simp add: handle_reply_v2_def classify_def inspect_reply_def flow_simps)
  next
    case (Some p)
    show ?thesis
    proof (cases "response_indicates_error p")
      case (Inl e)
      with ok assms Some show ?thesis
        by (simp add: handle_reply_v2_def classify_def inspect_reply_def flow_simps)
    next
      case (Inr hit)
      with ok assms Some show ?thesis
        by (cases "chat_histories_insert w (workflow_error_row w sid p)")
           (simp_all add: handle_reply_v2_def classify_def inspect_reply_def flow_simps)
    qed
  qed
qed

lemma sample_parse_simps:
  "sample_parse apology_body = Some apology_value"
  "sample_parse paris_body = Some paris_value"
  "sample_parse error_false_body = Some error_false_value"
  "sample_parse null_first_body = Some null_first_value"
  by (simp_all add: sample_parse_def apology_body_def paris_body_def error_false_body_def
        null_first_body_def)

lemma JSON_parse_sample: "JSON_parse (sample_world r) = sample_parse"
  by (simp add: sample_world_def)

lemma reports_apology: "reply_reports_error apology_value"
  by (simp add: reply_reports_error_def apology_value_def opt_prop_def text_hit_def
        test_throws_def apology_def)

lemma reports_paris: "\<not> reply_reports_error paris_value"
  by (simp add: reply_reports_error_def paris_value_def opt_prop_def text_hit_def
        test_throws_def apology_def)

text \<open>
  Claim C1, as amended. The second relay handler treats a reply as a transport failure
  iff its status is not 2xx; as a semantic failure iff the status is 2xx, the body parses
  as JSON, and the parsed value has a truthy \<open>error\<close> property or an \<open>output\<close> array in
  which, among the elements before the first one the test throws on, some element's
  \<open>text\<close> includes \<open>Sorry, I encountered an error\<close>; and as a success iff the status is
  2xx and the body does not parse or parses to a value that does not meet that
  condition.
\<close>

theorem classify_characterised:
  "(classify w st txt = TransportFailure \<longleftrightarrow> \<not> response_ok st) \<and>
   (classify w st txt = SemanticFailure \<longleftrightarrow>
      response_ok st \<and> (\<exists>p. JSON_parse w txt = Some p \<and> reply_reports_error p)) \<and>
   (classify w st txt = Success \<longleftrightarrow>
      response_ok st \<and>
      (JSON_parse w txt = None \<or> (\<exists>p. JSON_parse w txt = Some p \<and> \<not> reply_reports_error p)))"
proof (cases "response_ok st")
  case False
  then show ?thesis by (simp add: classify_def)
next
  case ok: True
  show ?thesis
  proof (cases "JSON_parse w txt")
    case None
    with ok show ?thesis by (simp add: classify_def)
  next
    case (Some p)
    show ?thesis
    proof (cases "reply_reports_error p")
      case True
      then have "response_indicates_error p = Inr True" by (simp add: indicates_error_iff)
      with ok Some True show ?thesis by (simp add: classify_def)
    next
      case False
      then have "response_indicates_error p \<noteq> Inr True" by (simp add: indicates_error_iff)
      with ok Some False show ?thesis by (auto simp: classify_def split: sum.splits)
    qed
  qed
qed

text \<open>
  The three replies the specification names: the apology with HTTP 200 is a semantic
  failure, the answer about Paris with HTTP 200 is a success, and HTTP 503 with any
  body is a transport failure.
\<close>

theorem classify_characterised_witness:
  "classify (sample_world (reply_with 200 apology_body)) 200 apology_body = SemanticFailure \<and>
   classify (sample_world (reply_with 200 paris_body)) 200 paris_body = Success \<and>
   (\<forall>txt. classify (sample_world (reply_with 503 txt)) 503 txt = TransportFailure)"
proof -
  have "classify (sample_world (reply_with 503 b)) 503 b = TransportFailure" for b
    using classify_characterised [of "sample_world (reply_with 503 b)" 503 b]
    by (simp add: response_ok_def)
  then show ?thesis
    using classify_characterised [of "sample_world (reply_with 200 apology_body)" 200 apology_body]
          classify_characterised [of "sample_world (reply_with 200 paris_body)" 200 paris_body]
    by (simp add: JSON_parse_sample sample_parse_simps reports_apology reports_paris
          response_ok_def)
qed

text \<open>
  Claim C1 as the specification words it fails on two replies of status 200. The body
  \<open>{"error":false}\<close> contains an \<open>error\<close> field, and the body
  \<open>{"output":[null,{"text":"Sorry, I encountered an error"}]}\<close> has an \<open>output\<close> element
  whose text includes the apology; the handler treats both as a success.
\<close>

theorem classify_counterexample:
  "spec_classify (sample_world (reply_with 200 error_false_body)) 200 error_false_body
     = SemanticFailure \<and>
   classify (sample_world (reply_with 200 error_false_body)) 200 error_false_body = Success \<and>
   spec_classify (sample_world (reply_with 200 null_first_body)) 200 null_first_body
     = SemanticFailure \<and>
   classify (sample_world (reply_with 200 null_first_body)) 200 null_first_body = Success"
  by (simp add: spec_classify_def classify_def JSON_parse_sample sample_parse_simps
        response_ok_def spec_semantic_failure_def spec_has_field_def error_false_value_def
        null_first_value_def opt_prop_def spec_item_apologises_def apology_def
        response_indicates_error_def some_call_def item_reports_error_def)

section \<open>The relay before the dispatch\<close>

lemma get_prop_defined:
  "body \<noteq> JNull \<Longrightarrow> body \<noteq> JUndefined \<Longrightarrow> get_prop body k = Inr (opt_prop body k)"
  by (cases body) (simp_all add: opt_prop_def)

lemma destructure3_defined:
  "body \<noteq> JNull \<Longrightarrow> body \<noteq> JUndefined \<Longrightarrow>
   destructure3 body a b c = Inr (opt_prop body a, opt_prop body b, opt_prop body c)"
  by (simp add: destructure3_def get_prop_defined)

lemma relay_front_invalid:
  assumes "req_json req = Inr body" and "body \<noteq> JNull" and "body \<noteq> JUndefined"
    and "\<not> truthy (opt_prop body ''session_id'') \<or> \<not> truthy (opt_prop body ''message'')"
  shows "relay_front w req =
           (Return (validation_error (opt_prop body ''session_id'') (opt_prop body ''message'')), [])"
  using assms by (auto simp add: relay_front_def flow_simps destructure3_defined)

text \<open>
  Claim C3, as amended. A request past the preflight test whose body decodes to a
  value whose fields can be read (any JSON value but \<open>null\<close>) and whose \<open>session_id\<close> or
  \<open>message\<close> is missing or empty (falsy) is answered with status 400, the error
  \<open>session_id and message are required\<close> and, under \<open>details\<close>, one boolean per field
  saying whether it was present; no storage or network call is made.
\<close>

theorem missing_field_rejected:
  assumes "req_method req \<noteq> ''OPTIONS''"
    and "req_json req = Inr body" and "body \<noteq> JNull" and "body \<noteq> JUndefined"
    and "\<not> truthy (opt_prop body ''session_id'') \<or> \<not> truthy (opt_prop body ''message'')"
  shows "serve_relay_v2 w req =
           (Inr (json_response 400
                  (JObj [(''error'', JStr ''session_id and message are required''),
                         (''details'',
                            JObj [(''session_id'', JBool (truthy (opt_prop body ''session_id''))),
                                  (''message'', JBool (truthy (opt_prop body ''message'')))])])),
            [])"
  using assms(1) relay_front_invalid [OF assms(2-5), of w]
  by (simp add: serve_relay_v2_def relay_try_v2_def flow_simps validation_error_def)

theorem missing_field_rejected_witness:
  "serve_relay_v2 (sample_world (reply_with 200 ''ok'')) request_without_message =
     (Inr (json_response 400
            (JObj [(''error'', JStr ''session_id and message are required''),
                   (''details'',
                      JObj [(''session_id'', JBool True), (''message'', JBool False)])])),
      [])"
  using missing_field_rejected
          [of request_without_message
              "JObj [(''session_id'', JStr ''nb-1''), (''message'', JStr '''')]"
              "sample_world (reply_with 200 ''ok'')"]
  by (simp add: request_without_message_def opt_prop_def)

text \<open>
  Claim C3 as the specification words it fails on a request that carries neither field
  because its body is the JSON value \<open>null\<close>, or is not JSON: reading the body or its
  fields throws inside the \<open>try\<close> block before the validation, and the catch-all
  handler answers with status 500 and the fault's message, not with the validation
  error. No storage or network call is made there either.
\<close>

theorem missing_field_counterexample:
  "opt_prop JNull ''session_id'' = JUndefined \<and>
   opt_prop JNull ''message'' = JUndefined \<and>
   serve_relay_v2 (sample_world (reply_with 200 ''ok'')) null_body_request =
     (Inr (json_response 500
            (JObj [(''error'', JStr ''Cannot read properties of null (reading session_id)''),
                   (''details'', JStr ''Check the function logs for more information'')])),
      []) \<and>
   serve_relay_v2 (sample_world (reply_with 200 ''ok'')) undecodable_request =
     (Inr (json_response 500
            (JObj [(''error'', JStr ''Unexpected end of JSON input''),
                   (''details'', JStr ''Check the function logs for more information'')])),
      [])"
  by (simp add: opt_prop_def serve_relay_v2_def relay_try_v2_def relay_front_def relay_catch_def
        save_error_message_def destructure3_def unexpected_error_def flow_simps
        null_body_request_def undecodable_request_def)

lemma hasProcessedSources_none:
  "(case d of None \<Rightarrow> True
    | Some rows \<Rightarrow> filter (\<lambda>r. processing_status r = JStr ''completed'') rows = [])
   \<longleftrightarrow> \<not> hasProcessedSources d"
  by (cases d) (auto simp: hasProcessedSources_def list_ex_iff filter_empty_conv)

text \<open>The relay up to the sources check, for a valid request on a conversation that is found.\<close>

lemma relay_front_found:
  assumes "req_json req = Inr body"
    and "opt_prop body ''session_id'' = sid" and "opt_prop body ''message'' = msg"
    and "truthy sid" and "truthy msg"
    and "new_client w = Inr ()"
    and "notebooks_single w ''id, title, user_id'' sid = Inr nb"
    and "error nb = None" and "truthy (data nb)"
    and "sources_select w ''id, processing_status'' sid = Inr src"
  shows "relay_front w req =
     (case error src of
        Some sourcesError \<Rightarrow>
          (Return (sources_read_error sourcesError),
           [SelectNotebook ''id, title, user_id'' sid, SelectSources ''id, processing_status'' sid])
      | None \<Rightarrow>
         if \<not> hasProcessedSources (data src) then
          (Return ineligible_error,
           [SelectNotebook ''id, title, user_id'' sid, SelectSources ''id, processing_status'' sid])
         else
           bind (Next (), [SelectNotebook ''id, title, user_id'' sid,
                           SelectSources ''id, processing_status'' sid])
             (\<lambda>_.
           bind (call (InsertChatHistory (human_row sid msg))
                (chat_histories_insert w (human_row sid msg))) (\<lambda>userMessageError.
     if \<not> env_present w ''NOTEBOOK_CHAT_URL''
     then (Return (config_error ''Chat service not configured'' ''NOTEBOOK_CHAT_URL''), [])
     else if \<not> env_present w ''NOTEBOOK_GENERATION_AUTH''
     then (Return (config_error ''Chat service authentication not configured''
                     ''NOTEBOOK_GENERATION_AUTH''), [])
     else
     bind (call (Fetch (env_or_empty w ''NOTEBOOK_CHAT_URL'')
                       (env_or_empty w ''NOTEBOOK_GENERATION_AUTH'')
                       (webhook_payload w sid msg (opt_prop body ''user_id'')))
                (fetch w (env_or_empty w ''NOTEBOOK_CHAT_URL'')
                         (env_or_empty w ''NOTEBOOK_GENERATION_AUTH'')
                         (webhook_payload w sid msg (opt_prop body ''user_id''))))
       (\<lambda>webhookResponse. (Next (sid, webhookResponse), [])))))"
proof -
  have body: "body \<noteq> JNull" "body \<noteq> JUndefined"
    using assms(2,4) by (auto simp: opt_prop_def)
  show ?thesis
    using assms
    by (simp add: relay_front_def flow_simps destructure3_defined [OF body]
             split: option.splits prod.splits)
qed

lemma sample_world_simps:
  "env_get (sample_world r) = sample_env"
  "createClient (sample_world r) = (\<lambda>url key. Inr ())"
  "notebooks_single (sample_world r) = (\<lambda>cols i. Inr \<lparr>data = JObj [(''id'', i)], error = None\<rparr>)"
  "sources_select (sample_world r) = (\<lambda>cols i. Inr \<lparr>data = Some [sample_source], error = None\<rparr>)"
  "documents_select (sample_world r) =
     (\<lambda>i. Inr \<lparr>data = Some [JObj [(''id'', JNum 1)]], error = None\<rparr>)"
  "chat_histories_recent (sample_world r) = (\<lambda>i. Inr \<lparr>data = Some [], error = None\<rparr>)"
  "chat_histories_insert (sample_world r) = (\<lambda>row. Inr None)"
  "fetch (sample_world r) = (\<lambda>url auth payload. Inr r)"
  "clock (sample_world r) = (\<lambda>k. ''2024-05-01T10:00:00.000Z'')"
  by (simp_all add: sample_world_def)

lemma sample_request_simps:
  "req_method sample_request = ''POST''"
  "req_json sample_request = Inr sample_body"
  "req_clone_json sample_request = Inl (JsError ''Body already consumed'')"
  "opt_prop sample_body ''session_id'' = JStr ''nb-1''"
  "opt_prop sample_body ''message'' = JStr ''What is the capital of France?''"
  "opt_prop sample_body ''user_id'' = JStr ''u-1''"
  by (simp_all add: sample_request_def sample_body_def opt_prop_def)

text \<open>
  Claim C4. For a valid request on a conversation that is found: when the sources read
  succeeds and returns no source with status \<open>completed\<close> (no rows at all included),
  the answer is status 400 with the error \<open>No processed sources available for this
  notebook\<close>, after the two reads and with no dispatch; when the sources read returns an
  error, the answer is a different one, status 500 with the error \<open>Failed to check
  notebook sources\<close> and the read's message, again with no dispatch.
\<close>

theorem no_completed_source_rejected:
  assumes "req_method req \<noteq> ''OPTIONS''"
    and "req_json req = Inr body"
    and "opt_prop body ''session_id'' = sid" and "opt_prop body ''message'' = msg"
    and "truthy sid" and "truthy msg"
    and "new_client w = Inr ()"
    and "notebooks_single w ''id, title, user_id'' sid = Inr nb"
    and "error nb = None" and "truthy (data nb)"
    and "sources_select w ''id, processing_status'' sid = Inr src"
  shows "(error src = None \<and>
          (case data src of
             None \<Rightarrow> True
           | Some rows \<Rightarrow> filter (\<lambda>r. processing_status r = JStr ''completed'') rows = [])
          \<longrightarrow>
          serve_relay_v2 w req =
            (Inr (json_response 400
                   (JObj [(''error'', JStr ''No processed sources available for this notebook''),
                          (''details'',
                             JStr ''Please wait for sources to finish processing before chatting'')])),
             [SelectNotebook ''id, title, user_id'' sid,
              SelectSources ''id, processing_status'' sid])) \<and>
         (\<forall>e. error src = Some e \<longrightarrow>
          serve_relay_v2 w req =
            (Inr (json_response 500
                   (JObj [(''error'', JStr ''Failed to check notebook sources''),
                          (''details'', JStr (pg_message e))])),
             [SelectNotebook ''id, title, user_id'' sid,
              SelectSources ''id, processing_status'' sid]))"
proof (intro conjI impI allI)
  assume "error src = None \<and>
          (case data src of
             None \<Rightarrow> True
           | Some rows \<Rightarrow> filter (\<lambda>r. processing_status r = JStr ''completed'') rows = [])"
  then have "error src = None" and "\<not> hasProcessedSources (data src)"
    by (simp_all add: hasProcessedSources_none)
  then show "serve_relay_v2 w req =
            (Inr (json_response 400
                   (JObj [(''error'', JStr ''No processed sources available for this notebook''),
                          (''details'',
                             JStr ''Please wait for sources to finish processing before chatting'')])),
             [SelectNotebook ''id, title, user_id'' sid,
              SelectSources ''id, processing_status'' sid])"
    using assms(1) relay_front_found [OF assms(2-11)]
    by (simp add: serve_relay_v2_def relay_try_v2_def flow_simps ineligible_error_def)
next
  fix e
  assume "error src = Some e"
  then show "serve_relay_v2 w req =
            (Inr (json_response 500
                   (JObj [(''error'', JStr ''Failed to check notebook sources''),
                          (''details'', JStr (pg_message e))])),
             [SelectNotebook ''id, title, user_id'' sid,
              SelectSources ''id, processing_status'' sid])"
    using assms(1) relay_front_found [OF assms(2-11)]
    by (simp add: serve_relay_v2_def relay_try_v2_def flow_simps sources_read_error_def)
qed

theorem no_completed_source_rejected_witness:
  "serve_relay_v2 pending_world sample_request =
     (Inr (json_response 400
            (JObj [(''error'', JStr ''No processed sources available for this notebook''),
                   (''details'',
                      JStr ''Please wait for sources to finish processing before chatting'')])),
      [SelectNotebook ''id, title, user_id'' (JStr ''nb-1''),
       SelectSources ''id, processing_status'' (JStr ''nb-1'')]) \<and>
   serve_relay_v2 sources_down_world sample_request =
     (Inr (json_response 500
            (JObj [(''error'', JStr ''Failed to check notebook sources''),
                   (''details'', JStr ''TypeError: error sending request'')])),
      [SelectNotebook ''id, title, user_id'' (JStr ''nb-1''),
       SelectSources ''id, processing_status'' (JStr ''nb-1'')])"
  using no_completed_source_rejected
          [of sample_request sample_body "JStr ''nb-1''" "JStr ''What is the capital of France?''"
              pending_world "\<lparr>data = JObj [(''id'', JStr ''nb-1'')], error = None\<rparr>"
              "\<lparr>data = Some [sample_source\<lparr>processing_status := JStr ''processing''\<rparr>],
                error = None\<rparr>"]
        no_completed_source_rejected
          [of sample_request sample_body "JStr ''nb-1''" "JStr ''What is the capital of France?''"
              sources_down_world "\<lparr>data = JObj [(''id'', JStr ''nb-1'')], error = None\<rparr>"
              "\<lparr>data = None, error = Some unreachable\<rparr>"]
  by (simp add: pending_world_def sources_down_world_def sample_world_simps sample_request_simps
        new_client_def sample_source_def unreachable_def)

lemma relay_front_eligible:
  assumes "req_json req = Inr body"
    and "opt_prop body ''session_id'' = sid" and "opt_prop body ''message'' = msg"
    and "truthy sid" and "truthy msg"
    and "new_client w = Inr ()"
    and "notebooks_single w ''id, title, user_id'' sid = Inr nb"
    and "error nb = None" and "truthy (data nb)"
    and "sources_select w ''id, processing_status'' sid = Inr src"
    and "error src = None" and "hasProcessedSources (data src)"
    and "chat_histories_insert w (human_row sid msg) = Inr userMessageError"
  shows "relay_front w req =
     (if \<not> env_present w ''NOTEBOOK_CHAT_URL''
      then (Return (config_error ''Chat service not configured'' ''NOTEBOOK_CHAT_URL''),
            [SelectNotebook ''id, title, user_id'' sid,
             SelectSources ''id, processing_status'' sid,
             InsertChatHistory (human_row sid msg)])
      else if \<not> env_present w ''NOTEBOOK_GENERATION_AUTH''
      then (Return (config_error ''Chat service authentication not configured''
                      ''NOTEBOOK_GENERATION_AUTH''),
            [SelectNotebook ''id, title, user_id'' sid,
             SelectSources ''id, processing_status'' sid,
             InsertChatHistory (human_row sid msg)])
      else
        (case fetch w (env_or_empty w ''NOTEBOOK_CHAT_URL'')
                      (env_or_empty w ''NOTEBOOK_GENERATION_AUTH'')
                      (webhook_payload w sid msg (opt_prop body ''user_id'')) of
           Inl e \<Rightarrow> Throw e
         | Inr webhookResponse \<Rightarrow> Next (sid, webhookResponse),
         [SelectNotebook ''id, title, user_id'' sid,
          SelectSources ''id, processing_status'' sid,
          InsertChatHistory (human_row sid msg),
          Fetch (env_or_empty w ''NOTEBOOK_CHAT_URL'')
                (env_or_empty w ''NOTEBOOK_GENERATION_AUTH'')
                (webhook_payload w sid msg (opt_prop body ''user_id''))]))"
  using assms(11-13) relay_front_found [OF assms(1-10)]
  by (simp add: flow_simps split: sum.splits)

lemma sample_env_simps:
  "env_present (sample_world r) ''NOTEBOOK_CHAT_URL''"
  "env_present (sample_world r) ''NOTEBOOK_GENERATION_AUTH''"
  "env_or_empty (sample_world r) ''NOTEBOOK_CHAT_URL'' = ''https://n8n.example.com/webhook/chat''"
  "env_or_empty (sample_world r) ''NOTEBOOK_GENERATION_AUTH'' = ''shared-secret''"
  "new_client (sample_world r) = Inr ()"
  by (simp_all add: env_present_def env_or_empty_def sample_world_simps sample_env_def
        new_client_def)

lemma no_chat_url_simps:
  "\<not> env_present no_chat_url_world ''NOTEBOOK_CHAT_URL''"
  "new_client no_chat_url_world = Inr ()"
  "notebooks_single no_chat_url_world cols i = Inr \<lparr>data = JObj [(''id'', i)], error = None\<rparr>"
  "sources_select no_chat_url_world cols i = Inr \<lparr>data = Some [sample_source], error = None\<rparr>"
  "chat_histories_insert no_chat_url_world row = Inr None"
  by (simp_all add: no_chat_url_world_def env_present_def env_without_chat_url_def
        sample_world_simps new_client_def)

lemma sample_source_completed: "hasProcessedSources (Some [sample_source])"
  by (simp add: hasProcessedSources_def sample_source_def)

lemma sample_body_defined: "sample_body \<noteq> JNull" "sample_body \<noteq> JUndefined"
  by (simp_all add: sample_body_def)

lemma no_notebook_simps:
  "new_client no_notebook_world = Inr ()"
  "notebooks_single no_notebook_world cols i =
     Inr \<lparr>data = JNull, error = Some (PostgrestError ''no rows returned'')\<rparr>"
  by (simp_all add: no_notebook_world_def no_chat_url_world_def sample_world_simps new_client_def)

text \<open>
  Claim C2, as amended. For a valid request on a conversation that is found and has a
  completed source, when the webhook endpoint or the shared secret is not configured
  the answer is status 500 with a configuration error naming the absent value (the
  endpoint first), and no dispatch is made. By then the handler has read the
  conversation and its sources and has written the inbound human message to the
  history; that insert is its only history write.
\<close>

theorem missing_config_after_human_message:
  assumes "req_method req \<noteq> ''OPTIONS''"
    and "req_json req = Inr body"
    and "opt_prop body ''session_id'' = sid" and "opt_prop body ''message'' = msg"
    and "truthy sid" and "truthy msg"
    and "new_client w = Inr ()"
    and "notebooks_single w ''id, title, user_id'' sid = Inr nb"
    and "error nb = None" and "truthy (data nb)"
    and "sources_select w ''id, processing_status'' sid = Inr src"
    and "error src = None" and "hasProcessedSources (data src)"
    and "chat_histories_insert w (human_row sid msg) = Inr userMessageError"
    and "\<not> env_present w ''NOTEBOOK_CHAT_URL'' \<or> \<not> env_present w ''NOTEBOOK_GENERATION_AUTH''"
  shows "serve_relay_v2 w req =
           (Inr (json_response 500
                  (if \<not> env_present w ''NOTEBOOK_CHAT_URL''
                   then JObj [(''error'', JStr ''Chat service not configured''),
                              (''details'',
                                 JStr ''NOTEBOOK_CHAT_URL environment variable not set'')]
                   else JObj [(''error'', JStr ''Chat service authentication not configured''),
                              (''details'',
                                 JStr ''NOTEBOOK_GENERATION_AUTH environment variable not set'')])),
            [SelectNotebook ''id, title, user_id'' sid,
             SelectSources ''id, processing_status'' sid,
             InsertChatHistory (human_row sid msg)])"
  using assms(1,15) relay_front_eligible [OF assms(2-14)]
  by (auto simp: serve_relay_v2_def relay_try_v2_def flow_simps config_error_def)

theorem missing_config_after_human_message_witness:
  "serve_relay_v2 no_chat_url_world sample_request =
     (Inr (json_response 500
            (JObj [(''error'', JStr ''Chat service not configured''),
                   (''details'', JStr ''NOTEBOOK_CHAT_URL environment variable not set'')])),
      [SelectNotebook ''id, title, user_id'' (JStr ''nb-1''),
       SelectSources ''id, processing_status'' (JStr ''nb-1''),
       InsertChatHistory
         (human_row (JStr ''nb-1'') (JStr ''What is the capital of France?''))])"
  using missing_config_after_human_message
          [of sample_request sample_body "JStr ''nb-1''" "JStr ''What is the capital of France?''"
              no_chat_url_world "\<lparr>data = JObj [(''id'', JStr ''nb-1'')], error = None\<rparr>"
              "\<lparr>data = Some [sample_source], error = None\<rparr>" None]
  by (simp add: no_chat_url_simps sample_request_simps sample_source_completed)

text \<open>
  Claim C2 as the specification words it fails twice. With the endpoint not configured
  and a valid conversation, the human message has been written to the history before
  the configuration error is returned; and when the conversation is not found the
  answer is the not-found error (status 404), not a configuration error.
\<close>

theorem missing_config_counterexample:
  "history_writes (snd (serve_relay_v2 no_chat_url_world sample_request)) =
     [human_row (JStr ''nb-1'') (JStr ''What is the capital of France?'')] \<and>
   fst (serve_relay_v2 no_notebook_world sample_request) =
     Inr (json_response 404
           (JObj [(''error'', JStr ''Notebook not found or access denied''),
                  (''details'', JStr ''no rows returned'')]))"
proof
  have "relay_front no_chat_url_world sample_request =
          (Return (config_error ''Chat service not configured'' ''NOTEBOOK_CHAT_URL''),
           [SelectNotebook ''id, title, user_id'' (JStr ''nb-1''),
            SelectSources ''id, processing_status'' (JStr ''nb-1''),
            InsertChatHistory
              (human_row (JStr ''nb-1'') (JStr ''What is the capital of France?''))])"
    using relay_front_eligible
          [of sample_request sample_body "JStr ''nb-1''" "JStr ''What is the capital of France?''"
              no_chat_url_world "\<lparr>data = JObj [(''id'', JStr ''nb-1'')], error = None\<rparr>"
              "\<lparr>data = Some [sample_source], error = None\<rparr>" None]
    by (simp add: no_chat_url_simps sample_request_simps sample_source_completed)
  then show "history_writes (snd (serve_relay_v2 no_chat_url_world sample_request)) =
     [human_row (JStr ''nb-1'') (JStr ''What is the capital of France?'')]"
    by (simp add: serve_relay_v2_def relay_try_v2_def flow_simps sample_request_simps
          history_writes_def)
next
  have "relay_front no_notebook_world sample_request =
          (Return (not_found_error (Some (PostgrestError ''no rows returned''))),
           [SelectNotebook ''id, title, user_id'' (JStr ''nb-1'')])"
    by (simp add: relay_front_def flow_simps sample_request_simps
          destructure3_defined [OF sample_body_defined] no_notebook_simps)
  then show "fst (serve_relay_v2 no_notebook_world sample_request) =
     Inr (json_response 404
           (JObj [(''error'', JStr ''Notebook not found or access denied''),
                  (''details'', JStr ''no rows returned'')]))"
    by (simp add: serve_relay_v2_def relay_try_v2_def flow_simps sample_request_simps
          not_found_error_def)
qed

section \<open>The relay after the dispatch\<close>

lemma string_of_500: "string_of_nat 500 = ''500''"
  by (simp add: string_of_nat.simps digit_char_def)

lemma not_ok_500: "\<not> response_ok 500"
  by (simp add: response_ok_def)

text \<open>
  Claim C5. For a valid request on an eligible conversation, with the webhook
  configured, whose dispatch returns HTTP 500 with a readable body: the response has
  status 500 and its \<open>error\<close> field is \<open>n8n webhook failed with status: 500\<close>, which
  contains \<open>500\<close>; and after the dispatch the handler inserts into the conversation's
  history an assistant (\<open>ai\<close>) message whose \<open>response_metadata\<close> has \<open>error\<close> true
  and \<open>status\<close> 500. (The two history inserts are assumed not to throw.)
\<close>

theorem transport_failure_recorded:
  assumes "req_method req \<noteq> ''OPTIONS''"
    and "req_json req = Inr body"
    and "opt_prop body ''session_id'' = sid" and "opt_prop body ''message'' = msg"
    and "truthy sid" and "truthy msg"
    and "new_client w = Inr ()"
    and "notebooks_single w ''id, title, user_id'' sid = Inr nb"
    and "error nb = None" and "truthy (data nb)"
    and "sources_select w ''id, processing_status'' sid = Inr src"
    and "error src = None" and "hasProcessedSources (data src)"
    and "chat_histories_insert w (human_row sid msg) = Inr userMessageError"
    and "env_present w ''NOTEBOOK_CHAT_URL''" and "env_present w ''NOTEBOOK_GENERATION_AUTH''"
    and "fetch w (env_or_empty w ''NOTEBOOK_CHAT_URL'') (env_or_empty w ''NOTEBOOK_GENERATION_AUTH'')
           (webhook_payload w sid msg (opt_prop body ''user_id'')) = Inr webhookResponse"
    and "wr_status webhookResponse = 500"
    and "wr_text webhookResponse = Inr errorText"
    and "chat_histories_insert w (status_error_row sid 500) = Inr insertError"
  shows "serve_relay_v2 w req =
           (Inr (json_response 500
                  (JObj [(''error'', JStr ''n8n webhook failed with status: 500''),
                         (''details'', JStr errorText),
                         (''suggestion'',
                            JStr ''Check your n8n workflow configuration and credentials'')])),
            [SelectNotebook ''id, title, user_id'' sid,
             SelectSources ''id, processing_status'' sid,
             InsertChatHistory (human_row sid msg),
             Fetch (env_or_empty w ''NOTEBOOK_CHAT_URL'')
                   (env_or_empty w ''NOTEBOOK_GENERATION_AUTH'')
                   (webhook_payload w sid msg (opt_prop body ''user_id'')),
             InsertChatHistory (status_error_row sid 500)]) \<and>
         str_includes ''n8n webhook failed with status: 500'' ''500'' \<and>
         session_id (status_error_row sid 500) = sid \<and>
         msg_type (status_error_row sid 500) = ''ai'' \<and>
         get_prop (response_metadata (status_error_row sid 500)) ''error'' = Inr (JBool True) \<and>
         get_prop (response_metadata (status_error_row sid 500)) ''status'' = Inr (JNum 500)"
proof -
  have front: "relay_front w req =
      (Next (sid, webhookResponse),
       [SelectNotebook ''id, title, user_id'' sid,
        SelectSources ''id, processing_status'' sid,
        InsertChatHistory (human_row sid msg),
        Fetch (env_or_empty w ''NOTEBOOK_CHAT_URL'')
              (env_or_empty w ''NOTEBOOK_GENERATION_AUTH'')
              (webhook_payload w sid msg (opt_prop body ''user_id''))])"
    using relay_front_eligible [OF assms(2-14)] assms(15-17) by simp
  have reply: "handle_reply_v2 w sid webhookResponse =
      (Return (webhook_failed 500 errorText), [InsertChatHistory (status_error_row sid 500)])"
    using assms(18-20) by (simp add: handle_reply_v2_def not_ok_branch_def not_ok_500 flow_simps)
  have "serve_relay_v2 w req =
          (Inr (webhook_failed 500 errorText),
           [SelectNotebook ''id, title, user_id'' sid,
            SelectSources ''id, processing_status'' sid,
            InsertChatHistory (human_row sid msg),
            Fetch (env_or_empty w ''NOTEBOOK_CHAT_URL'')
                  (env_or_empty w ''NOTEBOOK_GENERATION_AUTH'')
                  (webhook_payload w sid msg (opt_prop body ''user_id'')),
            InsertChatHistory (status_error_row sid 500)])"
    using assms(1) front reply by (simp add: serve_relay_v2_def relay_try_v2_def flow_simps)
  moreover have "str_includes ''n8n webhook failed with status: 500'' ''500''"
    by simp
  ultimately show ?thesis
    by (simp add: webhook_failed_def string_of_500 status_error_row_def ai_row_def)
qed

theorem transport_failure_recorded_witness:
  "serve_relay_v2 (sample_world (reply_with 500 ''Internal Server Error'')) sample_request =
     (Inr (json_response 500
            (JObj [(''error'', JStr ''n8n webhook failed with status: 500''),
                   (''details'', JStr ''Internal Server Error''),
                   (''suggestion'',
                      JStr ''Check your n8n workflow configuration and credentials'')])),
      [SelectNotebook ''id, title, user_id'' (JStr ''nb-1''),
       SelectSources ''id, processing_status'' (JStr ''nb-1''),
       InsertChatHistory (human_row (JStr ''nb-1'') (JStr ''What is the capital of France?'')),
       Fetch ''https://n8n.example.com/webhook/chat'' ''shared-secret''
         (JObj [(''session_id'', JStr ''nb-1''),
                (''message'', JStr ''What is the capital of France?''),
                (''user_id'', JStr ''u-1''),
                (''timestamp'', JStr ''2024-05-01T10:00:00.000Z'')]),
       InsertChatHistory (status_error_row (JStr ''nb-1'') 500)]) \<and>
   response_metadata (status_error_row (JStr ''nb-1'') 500) =
     JObj [(''error'', JBool True), (''status'', JNum 500)]"
  using transport_failure_recorded
          [of sample_request sample_body "JStr ''nb-1''" "JStr ''What is the capital of France?''"
              "sample_world (reply_with 500 ''Internal Server Error'')"
              "\<lparr>data = JObj [(''id'', JStr ''nb-1'')], error = None\<rparr>"
              "\<lparr>data = Some [sample_source], error = None\<rparr>" None
              "reply_with 500 ''Internal Server Error''" "''Internal Server Error''" None]
  by (simp add: sample_world_simps sample_env_simps sample_request_simps sample_source_completed
        reply_with_def webhook_payload_def status_error_row_def ai_row_def)

section \<open>The catch-all handler\<close>

lemma save_error_message_events:
  "snd (save_error_message w req err) = [] \<or>
   (\<exists>sid. snd (save_error_message w req err) = [InsertChatHistory (technical_error_row sid err)])"
  by (auto simp: save_error_message_def bind_def eval_def call_def split: sum.splits)

lemma save_error_message_no_return: "fst (save_error_message w req err) \<noteq> Return r"
  by (auto simp: save_error_message_def bind_def eval_def call_def split: sum.splits)

lemma relay_catch_returns:
  "relay_catch w req err = (Return (unexpected_error err), snd (save_error_message w req err))"
proof (cases "save_error_message w req err")
  case (Pair s evs)
  with save_error_message_no_return [of w req err] show ?thesis
    by (cases s) (auto simp: relay_catch_def flow_simps)
qed

lemma try_catch_relay:
  "\<exists>r evs. run (try_catch m (relay_catch w req)) = (Inr r, evs)"
proof (cases m)
  case (Pair s evs)
  then show ?thesis
    by (cases s) (simp_all add: flow_simps relay_catch_returns)
qed

lemma storage_down_simps:
  "new_client storage_down_world = Inr ()"
  "notebooks_single storage_down_world cols i = Inr \<lparr>data = JObj [(''id'', i)], error = None\<rparr>"
  "sources_select storage_down_world cols i = Inr \<lparr>data = Some [sample_source], error = None\<rparr>"
  "chat_histories_insert storage_down_world row = Inl (JsError ''storage is down'')"
  by (simp_all add: storage_down_world_def sample_world_simps new_client_def sample_env_def
        env_or_empty_def)

lemma replayable_request_simps:
  "req_method replayable_request = ''POST''"
  "req_json replayable_request = Inr sample_body"
  "req_clone_json replayable_request = Inr sample_body"
  by (simp_all add: replayable_request_def sample_request_def)

lemma storage_down_try:
  "relay_try_v2 storage_down_world replayable_request =
     (Throw (JsError ''storage is down''),
      [SelectNotebook ''id, title, user_id'' (JStr ''nb-1''),
       SelectSources ''id, processing_status'' (JStr ''nb-1''),
       InsertChatHistory (human_row (JStr ''nb-1'') (JStr ''What is the capital of France?''))])"
  using relay_front_found
          [of replayable_request sample_body "JStr ''nb-1''"
              "JStr ''What is the capital of France?''" storage_down_world
              "\<lparr>data = JObj [(''id'', JStr ''nb-1'')], error = None\<rparr>"
              "\<lparr>data = Some [sample_source], error = None\<rparr>"]
  by (simp add: relay_try_v2_def storage_down_simps replayable_request_simps sample_request_simps
        sample_source_completed flow_simps)

text \<open>
  Claim C6. Whatever the request and whatever the outside world does, the relay handler
  ends with a response and never with a fault of its own. When the \<open>try\<close> block throws,
  the response has status 500 and a JSON body whose \<open>error\<close> field is the fault's message
  (or a fixed text when that is empty); on the way the handler makes at most one more
  call, the insert of the technical-error message, and a fault of the second read of
  the request body, of the client or of that insert is swallowed.
\<close>

theorem relay_boundary_always_responds:
  "(\<exists>r evs. serve_relay_v2 w req = (Inr r, evs)) \<and>
   (\<forall>err evs. req_method req \<noteq> ''OPTIONS'' \<and> relay_try_v2 w req = (Throw err, evs) \<longrightarrow>
      (\<exists>evs'. serve_relay_v2 w req =
                 (Inr (json_response 500
                        (JObj [(''error'',
                                  JStr (if message err \<noteq> [] then message err
                                        else ''Failed to send message to chat service'')),
                               (''details'',
                                  JStr ''Check the function logs for more information'')])),
                  evs @ evs') \<and>
               (evs' = [] \<or>
                (\<exists>sid. evs' = [InsertChatHistory (technical_error_row sid err)]))))"
proof (intro conjI allI impI)
  show "\<exists>r evs. serve_relay_v2 w req = (Inr r, evs)"
    using try_catch_relay [of "relay_try_v2 w req" w req]
    by (simp add: serve_relay_v2_def flow_simps)
next
  fix err evs
  assume a: "req_method req \<noteq> ''OPTIONS'' \<and> relay_try_v2 w req = (Throw err, evs)"
  then have "serve_relay_v2 w req =
               (Inr (unexpected_error err), evs @ snd (save_error_message w req err))"
    by (simp add: serve_relay_v2_def flow_simps relay_catch_returns)
  then show "\<exists>evs'. serve_relay_v2 w req =
                 (Inr (json_response 500
                        (JObj [(''error'',
                                  JStr (if message err \<noteq> [] then message err
                                        else ''Failed to send message to chat service'')),
                               (''details'',
                                  JStr ''Check the function logs for more information'')])),
                  evs @ evs') \<and>
               (evs' = [] \<or>
                (\<exists>sid. evs' = [InsertChatHistory (technical_error_row sid err)]))"
    using save_error_message_events [of w req err]
    by (auto simp: unexpected_error_def)
qed

theorem relay_boundary_always_responds_witness:
  "fst (serve_relay_v2 storage_down_world replayable_request) =
     Inr (json_response 500
           (JObj [(''error'', JStr ''storage is down''),
                  (''details'', JStr ''Check the function logs for more information'')]))"
  using relay_boundary_always_responds [of storage_down_world replayable_request]
        storage_down_try
  by (auto simp: replayable_request_simps)

section \<open>The two relay handlers compared\<close>

lemma semantic_hit_iff:
  "semantic_hit w webhookResponse \<longleftrightarrow>
     response_ok (wr_status webhookResponse) \<and>
     (\<exists>t p. wr_text webhookResponse = Inr t \<and> JSON_parse w t = Some p \<and>
            reply_reports_error p)"
proof (cases "wr_text webhookResponse")
  case (Inl e)
  then show ?thesis by (simp add: semantic_hit_def)
next
  case (Inr t)
  show ?thesis
  proof (cases "JSON_parse w t")
    case None
    with Inr show ?thesis by (simp add: semantic_hit_def classify_def)
  next
    case (Some p)
    with Inr show ?thesis
      by (cases "response_indicates_error p")
         (auto simp: semantic_hit_def classify_def indicates_error_iff [symmetric])
  qed
qed

lemma inspect_reply_miss:
  assumes "classify w st t \<noteq> SemanticFailure" and "response_ok st"
  shows "attempt (inspect_reply w sid t) = (Next (), [])"
proof (cases "JSON_parse w t")
  case None
  then show ?thesis by (simp add: inspect_reply_def flow_simps)
next
  case (Some p)
  with assms show ?thesis
    by (cases "response_indicates_error p")
       (auto simp: inspect_reply_def classify_def flow_simps split: if_splits)
qed

lemma handle_reply_same:
  assumes "\<not> semantic_hit w webhookResponse"
  shows "handle_reply_v1 w sid webhookResponse = handle_reply_v2 w sid webhookResponse"
proof (cases "response_ok (wr_status webhookResponse)")
  case False
  then show ?thesis by (simp add: handle_reply_v1_def handle_reply_v2_def)
next
  case ok: True
  show ?thesis
  proof (cases "wr_text webhookResponse")
    case (Inl e)
    with ok show ?thesis by (simp add: handle_reply_v1_def handle_reply_v2_def flow_simps)
  next
    case (Inr t)
    with assms have "classify w (wr_status webhookResponse) t \<noteq> SemanticFailure"
      by (simp add: semantic_hit_def)
    from inspect_reply_miss [OF this ok] Inr ok show ?thesis
      by (simp add: handle_reply_v1_def handle_reply_v2_def flow_simps)
  qed
qed

lemma handle_reply_hit:
  assumes "response_ok (wr_status webhookResponse)" and "wr_text webhookResponse = Inr t"
    and "JSON_parse w t = Some p" and "reply_reports_error p"
  shows "handle_reply_v1 w sid webhookResponse = (Return (success_envelope t), [])"
    and "handle_reply_v2 w sid webhookResponse =
           (Return (case chat_histories_insert w (workflow_error_row w sid p) of
                      Inl e \<Rightarrow> success_envelope t
                    | Inr insertError \<Rightarrow> workflow_failed p),
            [InsertChatHistory (workflow_error_row w sid p)])"
proof -
  show "handle_reply_v1 w sid webhookResponse = (Return (success_envelope t), [])"
    using assms(1,2) by (simp add: handle_reply_v1_def flow_simps)
  have "response_indicates_error p = Inr True"
    using assms(4) by (simp add: indicates_error_iff)
  then show "handle_reply_v2 w sid webhookResponse =
           (Return (case chat_histories_insert w (workflow_error_row w sid p) of
                      Inl e \<Rightarrow> success_envelope t
                    | Inr insertError \<Rightarrow> workflow_failed p),
            [InsertChatHistory (workflow_error_row w sid p)])"
    using assms(1-3)
    by (cases "chat_histories_insert w (workflow_error_row w sid p)")
       (simp_all add: handle_reply_v2_def inspect_reply_def flow_simps)
qed

lemma sample_front:
  "relay_front (sample_world r) sample_request = (Next (JStr ''nb-1'', r), sample_trace)"
  using relay_front_eligible
          [of sample_request sample_body "JStr ''nb-1''" "JStr ''What is the capital of France?''"
              "sample_world r" "\<lparr>data = JObj [(''id'', JStr ''nb-1'')], error = None\<rparr>"
              "\<lparr>data = Some [sample_source], error = None\<rparr>" None]
  by (simp add: sample_world_simps sample_env_simps sample_request_simps sample_source_completed
        webhook_payload_def sample_trace_def)

lemma reply_with_simps:
  "wr_status (reply_with st t) = st" "wr_text (reply_with st t) = Inr t"
  by (simp_all add: reply_with_def)

lemma ok_200: "response_ok 200"
  by (simp add: response_ok_def)

lemma error_false_misses: "\<not> reply_reports_error error_false_value"
  by (simp add: reply_reports_error_def error_false_value_def opt_prop_def)

text \<open>
  Claim C10, as amended. When the dispatch is not reached or its reply is not one the
  second handler reports (status not 2xx, body unreadable or not JSON, or a parsed
  value that has no truthy \<open>error\<close> and no hit in the scan of \<open>output\<close>), the two relay
  handlers give the same response and make the same calls. When the reply is 2xx and
  its parsed value has a truthy \<open>error\<close> or a hit in the scan of \<open>output\<close>, the first
  handler returns the success envelope, and the second makes one more call, the insert
  of an assistant error message, and (that insert not throwing) returns status 500.
\<close>

theorem relay_versions_compared:
  "((\<forall>sid webhookResponse evs. relay_front w req = (Next (sid, webhookResponse), evs) \<longrightarrow>
       \<not> (response_ok (wr_status webhookResponse) \<and>
          (\<exists>t p. wr_text webhookResponse = Inr t \<and> JSON_parse w t = Some p \<and>
                 reply_reports_error p)))
     \<longrightarrow> serve_relay_v1 w req = serve_relay_v2 w req) \<and>
   (\<forall>sid webhookResponse evs t p insertError.
      req_method req \<noteq> ''OPTIONS'' \<and>
      relay_front w req = (Next (sid, webhookResponse), evs) \<and>
      response_ok (wr_status webhookResponse) \<and> wr_text webhookResponse = Inr t \<and>
      JSON_parse w t = Some p \<and> reply_reports_error p \<and>
      chat_histories_insert w (workflow_error_row w sid p) = Inr insertError
      \<longrightarrow>
      serve_relay_v1 w req =
        (Inr (json_response 200
               (JObj [(''success'', JBool True),
                      (''message'', JStr ''Message sent to chat service successfully''),
                      (''data'', JStr t)])),
         evs) \<and>
      serve_relay_v2 w req =
        (Inr (json_response 500
               (JObj [(''success'', JBool False),
                      (''error'', JStr ''n8n workflow returned an error''),
                      (''details'', JStr ''Check the chat for debugging information''),
                      (''n8n_response'', p)])),
         evs @ [InsertChatHistory (workflow_error_row w sid p)]) \<and>
      msg_type (workflow_error_row w sid p) = ''ai'' \<and>
      get_prop (response_metadata (workflow_error_row w sid p)) ''error'' = Inr (JBool True))"
proof (intro conjI allI impI)
  assume same: "\<forall>sid webhookResponse evs.
       relay_front w req = (Next (sid, webhookResponse), evs) \<longrightarrow>
       \<not> (response_ok (wr_status webhookResponse) \<and>
          (\<exists>t p. wr_text webhookResponse = Inr t \<and> JSON_parse w t = Some p \<and>
                 reply_reports_error p))"
  have "relay_try_v1 w req = relay_try_v2 w req"
  proof (cases "relay_front w req")
    case (Pair s evs)
    show ?thesis
    proof (cases s)
      case (Next a)
      obtain sid webhookResponse where a: "a = (sid, webhookResponse)" by (cases a)
      with same Pair Next have "\<not> semantic_hit w webhookResponse"
        by (simp add: semantic_hit_iff)
      then show ?thesis
        using Pair Next a
        by (simp add: relay_try_v1_def relay_try_v2_def flow_simps handle_reply_same)
    qed (simp_all add: Pair relay_try_v1_def relay_try_v2_def flow_simps)
  qed
  then show "serve_relay_v1 w req = serve_relay_v2 w req"
    by (simp add: serve_relay_v1_def serve_relay_v2_def)
next
  fix sid webhookResponse evs t p insertError
  assume h: "req_method req \<noteq> ''OPTIONS'' \<and>
      relay_front w req = (Next (sid, webhookResponse), evs) \<and>
      response_ok (wr_status webhookResponse) \<and> wr_text webhookResponse = Inr t \<and>
      JSON_parse w t = Some p \<and> reply_reports_error p \<and>
      chat_histories_insert w (workflow_error_row w sid p) = Inr insertError"
  then have hit: "response_ok (wr_status webhookResponse)" "wr_text webhookResponse = Inr t"
      "JSON_parse w t = Some p" "reply_reports_error p"
    by simp_all
  from h handle_reply_hit(1) [OF hit, of sid]
  show "serve_relay_v1 w req =
        (Inr (json_response 200
               (JObj [(''success'', JBool True),
                      (''message'', JStr ''Message sent to chat service successfully''),
                      (''data'', JStr t)])),
         evs)"
    by (simp add: serve_relay_v1_def relay_try_v1_def flow_simps success_envelope_def)
  from h handle_reply_hit(2) [OF hit, of sid]
  show "serve_relay_v2 w req =
        (Inr (json_response 500
               (JObj [(''success'', JBool False),
                      (''error'', JStr ''n8n workflow returned an error''),
                      (''details'', JStr ''Check the chat for debugging information''),
                      (''n8n_response'', p)])),
         evs @ [InsertChatHistory (workflow_error_row w sid p)])"
    by (simp add: serve_relay_v2_def relay_try_v2_def flow_simps workflow_failed_def)
  show "msg_type (workflow_error_row w sid p) = ''ai''"
    by (simp add: workflow_error_row_def ai_row_def)
  show "get_prop (response_metadata (workflow_error_row w sid p)) ''error'' = Inr (JBool True)"
    by (simp add: workflow_error_row_def ai_row_def)
qed

theorem relay_versions_compared_witness:
  "serve_relay_v1 (sample_world (reply_with 200 paris_body)) sample_request =
     serve_relay_v2 (sample_world (reply_with 200 paris_body)) sample_request \<and>
   serve_relay_v1 (sample_world (reply_with 200 apology_body)) sample_request =
     (Inr (json_response 200
            (JObj [(''success'', JBool True),
                   (''message'', JStr ''Message sent to chat service successfully''),
                   (''data'', JStr apology_body)])),
      sample_trace) \<and>
   serve_relay_v2 (sample_world (reply_with 200 apology_body)) sample_request =
     (Inr (json_response 500
            (JObj [(''success'', JBool False),
                   (''error'', JStr ''n8n workflow returned an error''),
                   (''details'', JStr ''Check the chat for debugging information''),
                   (''n8n_response'', apology_value)])),
      sample_trace @
      [InsertChatHistory
         (workflow_error_row (sample_world (reply_with 200 apology_body)) (JStr ''nb-1'')
            apology_value)])"
proof -
  have "serve_relay_v1 (sample_world (reply_with 200 paris_body)) sample_request =
        serve_relay_v2 (sample_world (reply_with 200 paris_body)) sample_request"
    using relay_versions_compared [of "sample_world (reply_with 200 paris_body)" sample_request]
    by (simp add: sample_front reply_with_simps JSON_parse_sample sample_parse_simps
          reports_paris)
  moreover have
    "serve_relay_v1 (sample_world (reply_with 200 apology_body)) sample_request =
       (Inr (json_response 200
              (JObj [(''success'', JBool True),
                     (''message'', JStr ''Message sent to chat service successfully''),
                     (''data'', JStr apology_body)])),
        sample_trace) \<and>
     serve_relay_v2 (sample_world (reply_with 200 apology_body)) sample_request =
       (Inr (json_response 500
              (JObj [(''success'', JBool False),
                     (''error'', JStr ''n8n workflow returned an error''),
                     (''details'', JStr ''Check the chat for debugging information''),
                     (''n8n_response'', apology_value)])),
        sample_trace @
        [InsertChatHistory
           (workflow_error_row (sample_world (reply_with 200 apology_body)) (JStr ''nb-1'')
              apology_value)])"
    using relay_versions_compared [of "sample_world (reply_with 200 apology_body)" sample_request]
    by (simp add: sample_front reply_with_simps JSON_parse_sample sample_parse_simps
          reports_apology sample_request_simps ok_200 sample_world_simps)
  ultimately show ?thesis by simp
qed

text \<open>
  Claim C10 as the specification words it fails on the 2xx reply \<open>{"error":false}\<close>: the
  body parses and contains an \<open>error\<close> field, yet the second handler returns the same
  success envelope as the first and writes no assistant message.
\<close>

theorem relay_versions_counterexample:
  "spec_semantic_failure error_false_value \<and>
   serve_relay_v2 (sample_world (reply_with 200 error_false_body)) sample_request =
     serve_relay_v1 (sample_world (reply_with 200 error_false_body)) sample_request \<and>
   serve_relay_v2 (sample_world (reply_with 200 error_false_body)) sample_request =
     (Inr (json_response 200
            (JObj [(''success'', JBool True),
                   (''message'', JStr ''Message sent to chat service successfully''),
                   (''data'', JStr error_false_body)])),
      sample_trace)"
proof -
  have miss: "\<not> semantic_hit (sample_world (reply_with 200 error_false_body))
                 (reply_with 200 error_false_body)"
    by (simp add: semantic_hit_iff reply_with_simps JSON_parse_sample sample_parse_simps
          error_false_misses)
  have v1: "serve_relay_v1 (sample_world (reply_with 200 error_false_body)) sample_request =
     (Inr (json_response 200
            (JObj [(''success'', JBool True),
                   (''message'', JStr ''Message sent to chat service successfully''),
                   (''data'', JStr error_false_body)])),
      sample_trace)"
    by (simp add: serve_relay_v1_def relay_try_v1_def sample_front flow_simps
          sample_request_simps handle_reply_v1_def reply_with_simps ok_200 success_envelope_def)
  have "serve_relay_v2 (sample_world (reply_with 200 error_false_body)) sample_request =
        serve_relay_v1 (sample_world (reply_with 200 error_false_body)) sample_request"
    by (simp add: serve_relay_v1_def serve_relay_v2_def relay_try_v1_def relay_try_v2_def
          sample_front flow_simps handle_reply_same [OF miss])
  moreover have "spec_semantic_failure error_false_value"
    by (simp add: spec_semantic_failure_def spec_has_field_def error_false_value_def)
  ultimately show ?thesis using v1 by simp
qed

section \<open>The diagnostics report\<close>

lemma recommendations_filter:
  "recommendations u a n c d url =
     map snd (filter fst
       [(\<not> u, rec_chat_url), (\<not> a, rec_auth), (\<not> n, rec_notebook), (\<not> c, rec_sources),
        (\<not> d, rec_documents), (url \<noteq> [] \<and> \<not> str_includes url ''webhook'', rec_webhook)])"
  by (simp add: recommendations_def push_if_def)

lemma overallStatus_iff:
  "overallStatus recs = ''HEALTHY'' \<longleftrightarrow> recs = []"
  "overallStatus recs = ''ISSUES_FOUND'' \<longleftrightarrow> recs \<noteq> []"
  by (simp_all add: overallStatus_def)

lemma diagnostics_try_complete:
  assumes "req_json req = Inr body"
    and "opt_prop body ''notebookId'' = nid" and "truthy nid"
    and "new_client w = Inr ()"
    and "notebooks_single w ''*'' nid = Inr nb"
    and "sources_select w ''id, title, type, processing_status, created_at'' nid = Inr src"
    and "documents_select w nid = Inr docs"
    and "chat_histories_recent w nid = Inr chat"
  shows "diagnostics_try w req =
           (Return (json_response 200 (diagnostics_report w nid nb src docs chat)),
            [SelectNotebook ''*'' nid,
             SelectSources ''id, title, type, processing_status, created_at'' nid,
             SelectDocuments nid, SelectChatHistory nid])"
proof -
  have "body \<noteq> JNull" "body \<noteq> JUndefined"
    using assms(2,3) by (auto simp: opt_prop_def)
  then have "get_prop body ''notebookId'' = Inr nid"
    using assms(2) by (simp add: get_prop_defined)
  then show ?thesis
    using assms by (simp add: diagnostics_try_def flow_simps)
qed

lemma report_fields:
  "opt_prop (diagnostics_report w nid nb src docs chat) ''recommendations'' =
     JArr (map JStr (report_recommendations w nb src docs))"
  "opt_prop (diagnostics_report w nid nb src docs chat) ''overallStatus'' =
     JStr (overallStatus (report_recommendations w nb src docs))"
  by (simp_all add: diagnostics_report_def opt_prop_def)

lemma notebookChatUrl_nonempty: "notebookChatUrl w \<noteq> []"
  by (simp add: notebookChatUrl_def env_present_def env_or_empty_def split: option.splits)

lemma sample_diagnostics_request_simps:
  "req_method sample_diagnostics_request = ''POST''"
  "req_json sample_diagnostics_request = Inr (JObj [(''notebookId'', JStr ''nb-1'')])"
  "opt_prop (JObj [(''notebookId'', JStr ''nb-1'')]) ''notebookId'' = JStr ''nb-1''"
  by (simp_all add: sample_diagnostics_request_def opt_prop_def)

lemma no_notebook_diag_simps:
  "\<not> env_present no_notebook_world ''NOTEBOOK_CHAT_URL''"
  "env_present no_notebook_world ''NOTEBOOK_GENERATION_AUTH''"
  "notebookChatUrl no_notebook_world = ''NOT_SET''"
  "sources_select no_notebook_world cols i = Inr \<lparr>data = Some [sample_source], error = None\<rparr>"
  "documents_select no_notebook_world i =
     Inr \<lparr>data = Some [JObj [(''id'', JNum 1)]], error = None\<rparr>"
  "chat_histories_recent no_notebook_world i = Inr \<lparr>data = Some [], error = None\<rparr>"
  by (simp_all add: no_notebook_world_def no_chat_url_world_def sample_world_simps
        env_present_def env_without_chat_url_def sample_env_def notebookChatUrl_def)

lemma sample_chat_url: "notebookChatUrl (sample_world r) = ''https://n8n.example.com/webhook/chat''"
  by (simp add: notebookChatUrl_def sample_env_simps)

text \<open>
  Claim C7. For a diagnostics request whose reads all return, the report's
  \<open>recommendations\<close> are the remediation strings, in this fixed order, of the tests that
  hold: webhook endpoint not configured, shared secret not configured, conversation
  not found, no completed source, no indexed document, endpoint value without the
  piece \<open>webhook\<close>. The report's \<open>overallStatus\<close> is \<open>HEALTHY\<close> when that list is empty
  and \<open>ISSUES_FOUND\<close> otherwise.
\<close>

theorem recommendations_in_fixed_order:
  assumes "req_method req \<noteq> ''OPTIONS''"
    and "req_json req = Inr body"
    and "opt_prop body ''notebookId'' = nid" and "truthy nid"
    and "new_client w = Inr ()"
    and "notebooks_single w ''*'' nid = Inr nb"
    and "sources_select w ''id, title, type, processing_status, created_at'' nid = Inr src"
    and "documents_select w nid = Inr docs"
    and "chat_histories_recent w nid = Inr chat"
    and "recs =
           map snd (filter fst
             [(\<not> env_present w ''NOTEBOOK_CHAT_URL'', rec_chat_url),
              (\<not> env_present w ''NOTEBOOK_GENERATION_AUTH'', rec_auth),
              (\<not> truthy (data nb), rec_notebook),
              (\<not> hasProcessedSources (data src), rec_sources),
              (row_count (data docs) = 0, rec_documents),
              (\<not> str_includes (notebookChatUrl w) ''webhook'', rec_webhook)])"
  shows "body_field (serve_diagnostics w req) ''recommendations'' = JArr (map JStr recs) \<and>
         body_field (serve_diagnostics w req) ''overallStatus'' =
           JStr (if recs = [] then ''HEALTHY'' else ''ISSUES_FOUND'')"
proof -
  have recs: "report_recommendations w nb src docs = recs"
    using assms(10)
    by (simp add: report_recommendations_def recommendations_filter notebookChatUrl_nonempty)
  have "serve_diagnostics w req =
          (Inr (json_response 200 (diagnostics_report w nid nb src docs chat)),
           [SelectNotebook ''*'' nid,
            SelectSources ''id, title, type, processing_status, created_at'' nid,
            SelectDocuments nid, SelectChatHistory nid])"
    using assms(1) diagnostics_try_complete [OF assms(2-9)]
    by (simp add: serve_diagnostics_def flow_simps)
  then show ?thesis
    by (simp add: body_field_def json_response_def report_fields recs overallStatus_def)
qed

theorem recommendations_in_fixed_order_witness:
  "body_field (serve_diagnostics no_notebook_world sample_diagnostics_request) ''recommendations'' =
     JArr [JStr rec_chat_url, JStr rec_notebook, JStr rec_webhook] \<and>
   body_field (serve_diagnostics no_notebook_world sample_diagnostics_request) ''overallStatus'' =
     JStr ''ISSUES_FOUND'' \<and>
   body_field (serve_diagnostics (sample_world (reply_with 200 ''ok'')) sample_diagnostics_request)
       ''recommendations'' = JArr [] \<and>
   body_field (serve_diagnostics (sample_world (reply_with 200 ''ok'')) sample_diagnostics_request)
       ''overallStatus'' = JStr ''HEALTHY''"
proof -
  have "body_field (serve_diagnostics no_notebook_world sample_diagnostics_request)
          ''recommendations'' = JArr [JStr rec_chat_url, JStr rec_notebook, JStr rec_webhook] \<and>
        body_field (serve_diagnostics no_notebook_world sample_diagnostics_request)
          ''overallStatus'' = JStr ''ISSUES_FOUND''"
    using recommendations_in_fixed_order
            [of sample_diagnostics_request "JObj [(''notebookId'', JStr ''nb-1'')]" "JStr ''nb-1''"
                no_notebook_world
                "\<lparr>data = JNull, error = Some (PostgrestError ''no rows returned'')\<rparr>"
                "\<lparr>data = Some [sample_source], error = None\<rparr>"
                "\<lparr>data = Some [JObj [(''id'', JNum 1)]], error = None\<rparr>"
                "\<lparr>data = Some [], error = None\<rparr>"
                "[rec_chat_url, rec_notebook, rec_webhook]"]
    by (simp add: sample_diagnostics_request_simps no_notebook_simps no_notebook_diag_simps
          sample_source_completed row_count_def)
  moreover have
    "body_field (serve_diagnostics (sample_world (reply_with 200 ''ok'')) sample_diagnostics_request)
       ''recommendations'' = JArr [] \<and>
     body_field (serve_diagnostics (sample_world (reply_with 200 ''ok'')) sample_diagnostics_request)
       ''overallStatus'' = JStr ''HEALTHY''"
    using recommendations_in_fixed_order
            [of sample_diagnostics_request "JObj [(''notebookId'', JStr ''nb-1'')]" "JStr ''nb-1''"
                "sample_world (reply_with 200 ''ok'')"
                "\<lparr>data = JObj [(''id'', JStr ''nb-1'')], error = None\<rparr>"
                "\<lparr>data = Some [sample_source], error = None\<rparr>"
                "\<lparr>data = Some [JObj [(''id'', JNum 1)]], error = None\<rparr>"
                "\<lparr>data = Some [], error = None\<rparr>" "[]"]
    by (simp add: sample_diagnostics_request_simps sample_world_simps sample_env_simps
          sample_source_completed row_count_def sample_chat_url)
  ultimately show ?thesis by simp
qed

lemma clock_update_simps:
  "env_present (w\<lparr>clock := c\<rparr>) k = env_present w k"
  "env_or_empty (w\<lparr>clock := c\<rparr>) k = env_or_empty w k"
  "new_client (w\<lparr>clock := c\<rparr>) = new_client w"
  "notebookChatUrl (w\<lparr>clock := c\<rparr>) = notebookChatUrl w"
  "report_recommendations (w\<lparr>clock := c\<rparr>) nb src docs = report_recommendations w nb src docs"
  by (simp_all add: env_present_def env_or_empty_def new_client_def notebookChatUrl_def
        report_recommendations_def)

text \<open>The three ways the \<open>try\<close> block of the diagnostics handler can end.\<close>

lemma diagnostics_try_cases:
  "(\<exists>err evs. diagnostics_try w req = (Throw err, evs) \<and> list_all is_read evs) \<or>
   diagnostics_try w req =
     (Return (json_response 400 (JObj [(''error'', JStr ''Notebook ID is required'')])), []) \<or>
   (\<exists>nid nb src docs chat.
      notebooks_single w ''*'' nid = Inr nb \<and>
      sources_select w ''id, title, type, processing_status, created_at'' nid = Inr src \<and>
      documents_select w nid = Inr docs \<and>
      chat_histories_recent w nid = Inr chat \<and>
      diagnostics_try w req =
        (Return (json_response 200 (diagnostics_report w nid nb src docs chat)),
         [SelectNotebook ''*'' nid,
          SelectSources ''id, title, type, processing_status, created_at'' nid,
          SelectDocuments nid, SelectChatHistory nid]))"
  by (auto simp: diagnostics_try_def bind_def eval_def call_def is_read_def split: sum.splits)
     blast

lemma opt_prop_obj:
  "opt_prop (JObj fs) k = (case map_of fs k of None \<Rightarrow> JUndefined | Some v \<Rightarrow> v)"
  by (simp add: opt_prop_def)

lemma serve_diagnostics_clock:
  "snd (serve_diagnostics (w\<lparr>clock := c\<rparr>) req) = snd (serve_diagnostics w req)"
  "body_field (serve_diagnostics (w\<lparr>clock := c\<rparr>) req) ''overallStatus'' =
     body_field (serve_diagnostics w req) ''overallStatus''"
  "body_field (serve_diagnostics (w\<lparr>clock := c\<rparr>) req) ''recommendations'' =
     body_field (serve_diagnostics w req) ''recommendations''"
  by (auto simp: serve_diagnostics_def diagnostics_try_def bind_def eval_def call_def
        try_catch_def run_def body_field_def json_response_def report_fields
        diagnostics_failed_def opt_prop_obj clock_update_simps
      split: sum.splits)

lemma serve_diagnostics_reads: "list_all is_read (snd (serve_diagnostics w req))"
  using diagnostics_try_cases [of w req]
  by (auto simp: serve_diagnostics_def flow_simps is_read_def)

lemma reads_write_nothing: "list_all is_read evs \<Longrightarrow> history_writes evs = []"
  by (induction evs) (auto simp: history_writes_def is_read_def split: event.splits)

text \<open>
  Claim C9. Two diagnostics runs on the same request, configuration and storage, at
  different times, give the same \<open>overallStatus\<close> and the same \<open>recommendations\<close> in the
  same order, and make the same calls; a run writes nothing to the history, so the
  first leaves the storage as the second finds it.
\<close>

theorem diagnostics_repeatable:
  "body_field (serve_diagnostics (w\<lparr>clock := ca\<rparr>) req) ''overallStatus'' =
     body_field (serve_diagnostics (w\<lparr>clock := cb\<rparr>) req) ''overallStatus'' \<and>
   body_field (serve_diagnostics (w\<lparr>clock := ca\<rparr>) req) ''recommendations'' =
     body_field (serve_diagnostics (w\<lparr>clock := cb\<rparr>) req) ''recommendations'' \<and>
   snd (serve_diagnostics (w\<lparr>clock := ca\<rparr>) req) =
     snd (serve_diagnostics (w\<lparr>clock := cb\<rparr>) req) \<and>
   history_writes (snd (serve_diagnostics (w\<lparr>clock := ca\<rparr>) req)) = []"
  by (simp add: serve_diagnostics_clock reads_write_nothing [OF serve_diagnostics_reads])

theorem diagnostics_repeatable_witness:
  "body_field (serve_diagnostics
                 (no_notebook_world\<lparr>clock := (\<lambda>k. ''2024-05-01T10:00:00.000Z'')\<rparr>)
                 sample_diagnostics_request) ''recommendations'' =
   body_field (serve_diagnostics
                 (no_notebook_world\<lparr>clock := (\<lambda>k. ''2024-05-01T10:00:07.000Z'')\<rparr>)
                 sample_diagnostics_request) ''recommendations'' \<and>
   body_field (serve_diagnostics
                 (no_notebook_world\<lparr>clock := (\<lambda>k. ''2024-05-01T10:00:00.000Z'')\<rparr>)
                 sample_diagnostics_request) ''overallStatus'' =
   body_field (serve_diagnostics
                 (no_notebook_world\<lparr>clock := (\<lambda>k. ''2024-05-01T10:00:07.000Z'')\<rparr>)
                 sample_diagnostics_request) ''overallStatus''"
  using diagnostics_repeatable
          [where w = no_notebook_world and req = sample_diagnostics_request
             and ca = "\<lambda>k. ''2024-05-01T10:00:00.000Z''"
             and cb = "\<lambda>k. ''2024-05-01T10:00:07.000Z''"]
  by simp

lemma unreachable_simps:
  "new_client unreachable_world = Inr ()"
  "clock unreachable_world = (\<lambda>k. ''2024-05-01T10:00:00.000Z'')"
  "notebooks_single unreachable_world cols i = Inr \<lparr>data = JNull, error = Some unreachable\<rparr>"
  "sources_select unreachable_world cols i = Inr \<lparr>data = None, error = Some unreachable\<rparr>"
  "documents_select unreachable_world i = Inr \<lparr>data = None, error = Some unreachable\<rparr>"
  "chat_histories_recent unreachable_world i = Inr \<lparr>data = None, error = Some unreachable\<rparr>"
  by (simp_all add: unreachable_world_def sample_world_simps new_client_def)

lemma no_client_try:
  "diagnostics_try no_client_world sample_diagnostics_request =
     (Throw (JsError ''supabaseUrl is required.''), [])"
  by (simp add: diagnostics_try_def flow_simps sample_diagnostics_request_simps
        no_client_world_def sample_world_simps new_client_def)

lemma no_client_clock: "clock no_client_world = (\<lambda>k. ''2024-05-01T10:00:00.000Z'')"
  by (simp add: no_client_world_def sample_world_simps)

text \<open>
  Claim C8, as amended. The diagnostics handler only reads: every call it makes is a
  select. A fault thrown inside its \<open>try\<close> block ends in a response of status 500 whose
  body holds the \<open>error\<close> text and a \<open>timestamp\<close>, and nothing of the report. A read that
  returns an error result is not such a fault: when all four reads return, the
  response is the full report with status 200, and each section's \<open>error\<close> field holds
  the message of its read's error.
\<close>

theorem diagnostics_failure_modes:
  "list_all is_read (snd (serve_diagnostics w req)) \<and>
   (\<forall>err evs. req_method req \<noteq> ''OPTIONS'' \<and> diagnostics_try w req = (Throw err, evs) \<longrightarrow>
      serve_diagnostics w req =
        (Inr (json_response 500
               (JObj [(''error'',
                         JStr (if message err \<noteq> [] then message err else ''Diagnostics failed'')),
                      (''timestamp'', JStr (clock w 1))])),
         evs)) \<and>
   (\<forall>body nid nb src docs chat.
      req_method req \<noteq> ''OPTIONS'' \<and> req_json req = Inr body \<and>
      opt_prop body ''notebookId'' = nid \<and> truthy nid \<and> new_client w = Inr () \<and>
      notebooks_single w ''*'' nid = Inr nb \<and>
      sources_select w ''id, title, type, processing_status, created_at'' nid = Inr src \<and>
      documents_select w nid = Inr docs \<and>
      chat_histories_recent w nid = Inr chat
      \<longrightarrow>
      fst (serve_diagnostics w req) =
        Inr (json_response 200 (diagnostics_report w nid nb src docs chat)) \<and>
      opt_prop (body_field (serve_diagnostics w req) ''notebook'') ''error'' =
        opt_message (error nb) \<and>
      opt_prop (body_field (serve_diagnostics w req) ''sources'') ''error'' =
        opt_message (error src) \<and>
      opt_prop (body_field (serve_diagnostics w req) ''vectorStore'') ''error'' =
        opt_message (error docs) \<and>
      opt_prop (body_field (serve_diagnostics w req) ''chatHistory'') ''error'' =
        opt_message (error chat))"
proof (intro conjI allI impI)
  show "list_all is_read (snd (serve_diagnostics w req))"
    by (rule serve_diagnostics_reads)
next
  fix err evs
  assume "req_method req \<noteq> ''OPTIONS'' \<and> diagnostics_try w req = (Throw err, evs)"
  then show "serve_diagnostics w req =
        (Inr (json_response 500
               (JObj [(''error'',
                         JStr (if message err \<noteq> [] then message err else ''Diagnostics failed'')),
                      (''timestamp'', JStr (clock w 1))])),
         evs)"
    by (simp add: serve_diagnostics_def flow_simps diagnostics_failed_def)
next
  fix body nid nb src docs chat
  assume h: "req_method req \<noteq> ''OPTIONS'' \<and> req_json req = Inr body \<and>
      opt_prop body ''notebookId'' = nid \<and> truthy nid \<and> new_client w = Inr () \<and>
      notebooks_single w ''*'' nid = Inr nb \<and>
      sources_select w ''id, title, type, processing_status, created_at'' nid = Inr src \<and>
      documents_select w nid = Inr docs \<and>
      chat_histories_recent w nid = Inr chat"
  then have hs: "req_json req = Inr body" "opt_prop body ''notebookId'' = nid" "truthy nid"
      "new_client w = Inr ()" "notebooks_single w ''*'' nid = Inr nb"
      "sources_select w ''id, title, type, processing_status, created_at'' nid = Inr src"
      "documents_select w nid = Inr docs" "chat_histories_recent w nid = Inr chat"
    by simp_all
  from h diagnostics_try_complete [OF hs] have res: "serve_diagnostics w req =
           (Inr (json_response 200 (diagnostics_report w nid nb src docs chat)),
            [SelectNotebook ''*'' nid,
             SelectSources ''id, title, type, processing_status, created_at'' nid,
             SelectDocuments nid, SelectChatHistory nid])"
    by (simp add: serve_diagnostics_def flow_simps)
  then show "fst (serve_diagnostics w req) =
        Inr (json_response 200 (diagnostics_report w nid nb src docs chat))"
    by simp
  show "opt_prop (body_field (serve_diagnostics w req) ''notebook'') ''error'' =
        opt_message (error nb)"
    by (simp add: res body_field_def json_response_def diagnostics_report_def opt_prop_obj
          notebook_section_def)
  show "opt_prop (body_field (serve_diagnostics w req) ''sources'') ''error'' =
        opt_message (error src)"
    by (simp add: res body_field_def json_response_def diagnostics_report_def opt_prop_obj
          sources_section_def)
  show "opt_prop (body_field (serve_diagnostics w req) ''vectorStore'') ''error'' =
        opt_message (error docs)"
    by (simp add: res body_field_def json_response_def diagnostics_report_def opt_prop_obj
          vectorStore_section_def)
  show "opt_prop (body_field (serve_diagnostics w req) ''chatHistory'') ''error'' =
        opt_message (error chat)"
    by (simp add: res body_field_def json_response_def diagnostics_report_def opt_prop_obj
          chatHistory_section_def)
qed

theorem diagnostics_failure_modes_witness:
  "serve_diagnostics no_client_world sample_diagnostics_request =
     (Inr (json_response 500
            (JObj [(''error'', JStr ''supabaseUrl is required.''),
                   (''timestamp'', JStr ''2024-05-01T10:00:00.000Z'')])),
      []) \<and>
   opt_prop (body_field (serve_diagnostics unreachable_world sample_diagnostics_request)
               ''notebook'') ''error'' = JStr ''TypeError: error sending request''"
proof -
  have "serve_diagnostics no_client_world sample_diagnostics_request =
     (Inr (json_response 500
            (JObj [(''error'', JStr ''supabaseUrl is required.''),
                   (''timestamp'', JStr ''2024-05-01T10:00:00.000Z'')])),
      [])"
    using diagnostics_failure_modes [of no_client_world sample_diagnostics_request] no_client_try
    by (simp add: sample_diagnostics_request_simps no_client_clock)
  moreover have
    "opt_prop (body_field (serve_diagnostics unreachable_world sample_diagnostics_request)
               ''notebook'') ''error'' = JStr ''TypeError: error sending request''"
    using diagnostics_failure_modes [of unreachable_world sample_diagnostics_request]
    by (simp add: sample_diagnostics_request_simps unreachable_simps opt_message_def
          unreachable_def)
  ultimately show ?thesis by simp
qed

text \<open>
  Claim C8 as the specification words it fails when the storage service answers every
  read with an error: the response is the report with status 200, with all nine
  top-level fields and no top-level \<open>error\<close>; the failure shows only inside the
  sections, next to their partial results.
\<close>

theorem diagnostics_failure_counterexample:
  "fst (serve_diagnostics unreachable_world sample_diagnostics_request) =
     Inr (json_response 200
           (diagnostics_report unreachable_world (JStr ''nb-1'')
              \<lparr>data = JNull, error = Some unreachable\<rparr>
              \<lparr>data = None, error = Some unreachable\<rparr>
              \<lparr>data = None, error = Some unreachable\<rparr>
              \<lparr>data = None, error = Some unreachable\<rparr>)) \<and>
   body_keys (serve_diagnostics unreachable_world sample_diagnostics_request) =
     [''notebookId'', ''timestamp'', ''environment'', ''notebook'', ''sources'', ''vectorStore'',
      ''chatHistory'', ''recommendations'', ''overallStatus''] \<and>
   body_field (serve_diagnostics unreachable_world sample_diagnostics_request) ''error'' =
     JUndefined \<and>
   body_field (serve_diagnostics unreachable_world sample_diagnostics_request) ''sources'' =
     JObj [(''count'', JNum 0),
           (''error'', JStr ''TypeError: error sending request''),
           (''statuses'', JUndefined),
           (''hasCompleted'', JBool False)]"
proof -
  have res: "serve_diagnostics unreachable_world sample_diagnostics_request =
     (Inr (json_response 200
           (diagnostics_report unreachable_world (JStr ''nb-1'')
              \<lparr>data = JNull, error = Some unreachable\<rparr>
              \<lparr>data = None, error = Some unreachable\<rparr>
              \<lparr>data = None, error = Some unreachable\<rparr>
              \<lparr>data = None, error = Some unreachable\<rparr>)),
      [SelectNotebook ''*'' (JStr ''nb-1''),
       SelectSources ''id, title, type, processing_status, created_at'' (JStr ''nb-1''),
       SelectDocuments (JStr ''nb-1''), SelectChatHistory (JStr ''nb-1'')])"
    using diagnostics_try_complete
            [of sample_diagnostics_request "JObj [(''notebookId'', JStr ''nb-1'')]" "JStr ''nb-1''"
                unreachable_world
                "\<lparr>data = JNull, error = Some unreachable\<rparr>"
                "\<lparr>data = None, error = Some unreachable\<rparr>"
                "\<lparr>data = None, error = Some unreachable\<rparr>"
                "\<lparr>data = None, error = Some unreachable\<rparr>"]
    by (simp add: serve_diagnostics_def flow_simps sample_diagnostics_request_simps
          unreachable_simps)
  show ?thesis
    by (simp add: res body_keys_def body_field_def json_response_def diagnostics_report_def
          opt_prop_obj environment_section_def notebook_section_def sources_section_def
          vectorStore_section_def chatHistory_section_def opt_message_def unreachable_def
          row_count_def hasProcessedSources_def)
qed

end
